theory Spec2Isabelle
  imports Main
begin

section \<open>Python values and exceptions\<close>

text \<open>
  A \<open>pathlib\<close> path (POSIX flavour) is its root (\<open>''''\<close>, \<open>''/''\<close> or \<open>''//''\<close>) and its
  components.
\<close>

datatype ppath = PPath (proot: string) (pparts: "string list")

text \<open>
  The exception classes the program meets. All are subclasses of \<open>Exception\<close>, so a clause
  \<open>except Exception\<close> handles every one of them; \<open>except subprocess.CalledProcessError\<close>
  handles \<open>CalledProcessError\<close> only.
\<close>

datatype exn =
    CalledProcessError
  | FileNotFoundError
  | YAMLError
  | TypeError
  | AttributeError
  | KeyError
  | ValueError
  | UnboundLocalError
  | ImportError
  | OSError
  | OtherException string

text \<open>
  The values the program handles: what \<open>yaml.safe_load\<close> produces (\<open>None\<close>, booleans,
  integers, strings, lists, mappings in key order), \<open>pathlib.Path\<close> objects and caught
  exception objects. Floats, timestamps, byte strings and sets, which a YAML document can
  also hold, are not modelled.
\<close>

datatype pyval =
    VNone
  | VBool bool
  | VInt int
  | VStr string
  | VList "pyval list"
  | VDict "(pyval \<times> pyval) list"
  | VPath ppath
  | VExn exn

text \<open>Truth value testing (\<open>if x\<close>, \<open>not x\<close>, \<open>x and y\<close>).\<close>

fun truthy :: "pyval \<Rightarrow> bool" where
  "truthy VNone = False"
| "truthy (VBool b) = b"
| "truthy (VInt i) = (i \<noteq> 0)"
| "truthy (VStr s) = (s \<noteq> [])"
| "truthy (VList xs) = (xs \<noteq> [])"
| "truthy (VDict kvs) = (kvs \<noteq> [])"
| "truthy (VPath p) = True"
| "truthy (VExn e) = True"

fun is_str :: "pyval \<Rightarrow> bool" where
  "is_str (VStr s) = True"
| "is_str v = False"

fun is_dict :: "pyval \<Rightarrow> bool" where
  "is_dict (VDict kvs) = True"
| "is_dict v = False"

section \<open>Strings\<close>

definition startswith :: "string \<Rightarrow> string \<Rightarrow> bool" where
  "startswith s pre = (take (length pre) s = pre)"

definition endswith :: "string \<Rightarrow> string \<Rightarrow> bool" where
  "endswith s suf = (length suf \<le> length s \<and> drop (length s - length suf) s = suf)"

text \<open>\<open>sub in s\<close> on strings: \<open>sub\<close> occurs in \<open>s\<close> as a substring.\<close>

fun str_contains :: "string \<Rightarrow> string \<Rightarrow> bool" where
  "str_contains sub [] = (sub = [])"
| "str_contains sub (c # cs) = (startswith (c # cs) sub \<or> str_contains sub cs)"

text \<open>
  \<open>s.replace(old, new)\<close> for a non-empty \<open>old\<close>: every occurrence, scanning from the left,
  without overlaps.
\<close>

function replace_all :: "string \<Rightarrow> string \<Rightarrow> string \<Rightarrow> string" where
  "replace_all old new [] = []"
| "replace_all old new (c # cs) =
     (if old \<noteq> [] \<and> startswith (c # cs) old
      then new @ replace_all old new (drop (length old) (c # cs))
      else c # replace_all old new cs)"
  by pat_completeness auto
termination
  by (relation "measure (\<lambda>(old, new, s). length s)") auto

text \<open>\<open>s.split(c)\<close> for a one-character separator; the result is never empty.\<close>

fun split_sep :: "char \<Rightarrow> string \<Rightarrow> string list" where
  "split_sep c [] = [[]]"
| "split_sep c (x # xs) =
     (if x = c then [] # split_sep c xs
      else (case split_sep c xs of [] \<Rightarrow> [[x]] | y # ys \<Rightarrow> (x # y) # ys))"

text \<open>\<open>sep.join(xs)\<close>.\<close>

fun join_sep :: "string \<Rightarrow> string list \<Rightarrow> string" where
  "join_sep sep [] = []"
| "join_sep sep [x] = x"
| "join_sep sep (x # y # ys) = x @ sep @ join_sep sep (y # ys)"

section \<open>pathlib\<close>

text \<open>
  \<open>splitroot\<close>: one leading slash, or three and more, make the root \<open>/\<close>; exactly two make
  the root \<open>//\<close>.
\<close>

definition splitroot :: "string \<Rightarrow> string \<times> string" where
  "splitroot p =
     (if take 1 p \<noteq> ''/'' then ([], p)
      else if take 1 (drop 1 p) \<noteq> ''/'' \<or> take 1 (drop 2 p) = ''/'' then (''/'', drop 1 p)
      else (''//'', drop 2 p))"

text \<open>\<open>Path(s)\<close> for a string: empty components and \<open>.\<close> components are dropped.\<close>

definition parse_path :: "string \<Rightarrow> ppath" where
  "parse_path s =
     (case splitroot s of
        (root, rel) \<Rightarrow> PPath root (filter (\<lambda>x. x \<noteq> [] \<and> x \<noteq> ''.'') (split_sep CHR ''/'' rel)))"

text \<open>
  \<open>p / s\<close>: a string with a root replaces the path; any other string's components are
  appended to those of \<open>p\<close>.
\<close>

definition path_join :: "ppath \<Rightarrow> string \<Rightarrow> ppath" where
  "path_join p s =
     (let q = parse_path s
      in if proot q \<noteq> [] then q else PPath (proot p) (pparts p @ pparts q))"

definition path_str :: "ppath \<Rightarrow> string" where
  "path_str p =
     (if proot p = [] \<and> pparts p = [] then ''.'' else proot p @ join_sep ''/'' (pparts p))"

definition path_name :: "ppath \<Rightarrow> string" where
  "path_name p = (if pparts p = [] then [] else last (pparts p))"

text \<open>
  \<open>p.suffix\<close>: the part of the name from its last dot, when that dot is neither the first
  nor the last character of the name.
\<close>

definition path_suffix :: "ppath \<Rightarrow> string" where
  "path_suffix p =
     (let name = path_name p;
          ext = rev (takeWhile (\<lambda>c. c \<noteq> CHR ''.'') (rev name))
      in if CHR ''.'' \<in> set name \<and> ext \<noteq> [] \<and> length ext + 1 < length name
         then CHR ''.'' # ext else [])"

definition path_parent :: "ppath \<Rightarrow> ppath" where
  "path_parent p = (if pparts p = [] then p else PPath (proot p) (butlast (pparts p)))"

text \<open>\<open>p.with_suffix(suf)\<close> raises \<open>ValueError\<close> on a path with an empty name.\<close>

definition with_suffix :: "ppath \<Rightarrow> string \<Rightarrow> exn + ppath" where
  "with_suffix p suf =
     (let name = path_name p
      in if name = [] then Inl ValueError
         else Inr (PPath (proot p)
                (butlast (pparts p) @ [take (length name - length (path_suffix p)) name @ suf])))"

text \<open>\<open>Path(v)\<close> takes a string or a path; anything else is a \<open>TypeError\<close>.\<close>

fun py_Path :: "pyval \<Rightarrow> exn + ppath" where
  "py_Path (VStr s) = Inr (parse_path s)"
| "py_Path (VPath p) = Inr p"
| "py_Path v = Inl TypeError"

section \<open>Operations on values\<close>

text \<open>\<open>d.get(k, default)\<close>: only a mapping has the method.\<close>

fun py_get :: "pyval \<Rightarrow> string \<Rightarrow> pyval \<Rightarrow> exn + pyval" where
  "py_get (VDict kvs) k dflt = Inr (case map_of kvs (VStr k) of Some v \<Rightarrow> v | None \<Rightarrow> dflt)"
| "py_get v k dflt = Inl AttributeError"

text \<open>\<open>k in v\<close> for a string \<open>k\<close>.\<close>

fun py_in :: "string \<Rightarrow> pyval \<Rightarrow> exn + bool" where
  "py_in k (VDict kvs) = Inr (VStr k \<in> fst ` set kvs)"
| "py_in k (VList xs) = Inr (VStr k \<in> set xs)"
| "py_in k (VStr s) = Inr (str_contains k s)"
| "py_in k v = Inl TypeError"

text \<open>\<open>v[k]\<close> for a string \<open>k\<close>.\<close>

fun py_item :: "pyval \<Rightarrow> string \<Rightarrow> exn + pyval" where
  "py_item (VDict kvs) k = (case map_of kvs (VStr k) of Some v \<Rightarrow> Inr v | None \<Rightarrow> Inl KeyError)"
| "py_item v k = Inl TypeError"

fun py_len :: "pyval \<Rightarrow> exn + int" where
  "py_len (VStr s) = Inr (int (length s))"
| "py_len (VList xs) = Inr (int (length xs))"
| "py_len (VDict kvs) = Inr (int (length kvs))"
| "py_len v = Inl TypeError"

text \<open>The items a \<open>for\<close> loop or \<open>list.extend\<close> takes from a value.\<close>

fun py_iter :: "pyval \<Rightarrow> exn + pyval list" where
  "py_iter (VStr s) = Inr (map (\<lambda>c. VStr [c]) s)"
| "py_iter (VList xs) = Inr xs"
| "py_iter (VDict kvs) = Inr (map fst kvs)"
| "py_iter v = Inl TypeError"

text \<open>\<open>s.startswith(pre)\<close>, \<open>s.replace(old, new)\<close> and \<open>s.split('/')[-1]\<close>: methods of strings only.\<close>

fun py_startswith :: "pyval \<Rightarrow> string \<Rightarrow> exn + bool" where
  "py_startswith (VStr s) pre = Inr (startswith s pre)"
| "py_startswith v pre = Inl AttributeError"

fun py_replace :: "pyval \<Rightarrow> string \<Rightarrow> string \<Rightarrow> exn + pyval" where
  "py_replace (VStr s) old new = Inr (VStr (replace_all old new s))"
| "py_replace v old new = Inl AttributeError"

fun py_split_last :: "pyval \<Rightarrow> exn + string" where
  "py_split_last (VStr s) = Inr (last (split_sep CHR ''/'' s))"
| "py_split_last v = Inl AttributeError"

text \<open>
  The text an f-string puts for a value. It is needed for the name of a Kaggle resource
  only, after \<open>subprocess.run\<close> has taken the name as an argument, which leaves strings and
  paths (see \<open>subprocess_run\<close> below, and the lemma \<open>download_kaggle_type_error\<close>); no other
  value reaches it.
\<close>

fun fstring :: "pyval \<Rightarrow> string" where
  "fstring (VStr s) = s"
| "fstring (VPath p) = path_str p"
| "fstring v = []"

section \<open>The machine, the outside world and the trace\<close>

text \<open>
  The calls that leave the program: a subprocess (\<open>subprocess.run(cmd, check=True)\<close>), the
  network (\<open>urlretrieve\<close>; \<open>urlopen\<close> copied into a file opened for writing, with the
  \<open>Authorization\<close> header of the request), and the file system (\<open>mkdir(parents=True,
  exist_ok=True)\<close>, \<open>ZipFile(path).extractall(dir)\<close>, \<open>tarfile.open(path).extractall(dir)\<close>,
  \<open>os.remove\<close>).
\<close>

datatype call =
    Subprocess_run "pyval list"
  | Urlretrieve pyval pyval
  | Mkdir_parents ppath
  | Urlopen_to_file pyval "string option" pyval
  | Zip_extractall ppath pyval
  | Tar_extractall ppath pyval
  | Os_remove ppath

text \<open>
  What a run leaves behind, in order: each \<open>print\<close> (the text with \<open>{}\<close> for every
  interpolated value, and the values), each entry into a function of the program with its
  arguments, each call that leaves the program, each write to \<open>os.environ\<close>.
\<close>

datatype event =
    Print string "pyval list"
  | Enter string "pyval list"
  | Call call
  | Setenv string string

text \<open>
  The state of a run: the world outside the process (file system, network, installed tools),
  of which nothing is assumed, and the environment variables of the process itself. A child
  process, a download or an extraction changes the world and cannot write the environment
  of this process.
\<close>

record 'w machine =
  world :: 'w
  environ :: "string \<Rightarrow> string option"

text \<open>
  How the world answers. \<open>perform\<close> gives, for a call, the exception it raises (if any) and
  the world after it. The other fields read the world: \<open>Path.exists\<close> and \<open>Path.is_file\<close>
  (either answers, or raises: an \<open>OSError\<close> for a name that is too long or a directory
  that may not be searched, for instance), the
  check \<open>urllib.request.Request\<close> makes of its URL, opening and parsing the configuration
  file, \<open>import google.colab\<close>, the secret stores of Colab and Kaggle (an exception of the
  import or the constructor, or the lookup function) and \<open>load_dotenv\<close>, which reads the
  \<open>.env\<close> file and writes the environment. \<open>executable\<close> is \<open>sys.executable\<close>.
\<close>

record 'w system =
  executable :: string
  perform :: "'w \<Rightarrow> call \<Rightarrow> exn option \<times> 'w"
  path_exists :: "'w \<Rightarrow> ppath \<Rightarrow> exn + bool"
  path_is_file :: "'w \<Rightarrow> ppath \<Rightarrow> exn + bool"
  request_check :: "pyval \<Rightarrow> exn option"
  load_config :: "'w \<Rightarrow> string \<Rightarrow> exn + pyval"
  colab_import :: "'w \<Rightarrow> exn option"
  colab_userdata :: "'w \<Rightarrow> exn + (string \<Rightarrow> exn + string option)"
  kaggle_secrets :: "'w \<Rightarrow> exn + (string \<Rightarrow> exn + string option)"
  load_dotenv :: "'w \<Rightarrow> (string \<Rightarrow> string option) \<Rightarrow> exn option \<times> (string \<Rightarrow> string option)"

text \<open>
  A piece of program takes the state and gives its result (\<open>Inl\<close> the exception that leaves
  it), the state after it and the events it produced.
\<close>

type_synonym ('w, 'a) prog = "'w machine \<Rightarrow> (exn + 'a) \<times> 'w machine \<times> event list"

definition ret :: "'a \<Rightarrow> ('w, 'a) prog" where
  "ret x s = (Inr x, s, [])"

definition throw :: "exn \<Rightarrow> ('w, 'a) prog" where
  "throw e s = (Inl e, s, [])"

definition lift :: "exn + 'a \<Rightarrow> ('w, 'a) prog" where
  "lift r s = (r, s, [])"

text \<open>One statement after another: an exception of the first skips the second.\<close>

definition seq :: "('w, 'a) prog \<Rightarrow> ('a \<Rightarrow> ('w, 'b) prog) \<Rightarrow> ('w, 'b) prog" where
  "seq m f s =
     (case m s of
        (Inl e, s1, t1) \<Rightarrow> (Inl e, s1, t1)
      | (Inr x, s1, t1) \<Rightarrow> (case f x s1 of (r, s2, t2) \<Rightarrow> (r, s2, t1 @ t2)))"

text \<open>\<open>try: m except C as e: h e\<close>, where \<open>handled\<close> tells the exceptions of class \<open>C\<close>.\<close>

definition catch :: "('w, 'a) prog \<Rightarrow> (exn \<Rightarrow> bool) \<Rightarrow> (exn \<Rightarrow> ('w, 'a) prog) \<Rightarrow> ('w, 'a) prog" where
  "catch m handled h s =
     (case m s of
        (Inl e, s1, t1) \<Rightarrow>
          (if handled e then (case h e s1 of (r, s2, t2) \<Rightarrow> (r, s2, t1 @ t2))
           else (Inl e, s1, t1))
      | (Inr x, s1, t1) \<Rightarrow> (Inr x, s1, t1))"

definition any_exception :: "exn \<Rightarrow> bool" where
  "any_exception e = True"

definition called_process_error :: "exn \<Rightarrow> bool" where
  "called_process_error e = (e = CalledProcessError)"

definition say :: "string \<Rightarrow> pyval list \<Rightarrow> ('w, unit) prog" where
  "say msg args s = (Inr (), s, [Print msg args])"

definition enter :: "string \<Rightarrow> pyval list \<Rightarrow> ('w, unit) prog" where
  "enter name args s = (Inr (), s, [Enter name args])"

definition call :: "'w system \<Rightarrow> call \<Rightarrow> ('w, unit) prog" where
  "call sys c s =
     (case perform sys (world s) c of
        (None, w) \<Rightarrow> (Inr (), s\<lparr>world := w\<rparr>, [Call c])
      | (Some e, w) \<Rightarrow> (Inl e, s\<lparr>world := w\<rparr>, [Call c]))"

definition exists_path :: "'w system \<Rightarrow> ppath \<Rightarrow> ('w, bool) prog" where
  "exists_path sys p s = (path_exists sys (world s) p, s, [])"

definition is_file_path :: "'w system \<Rightarrow> ppath \<Rightarrow> ('w, bool) prog" where
  "is_file_path sys p s = (path_is_file sys (world s) p, s, [])"

definition setenv :: "string \<Rightarrow> string \<Rightarrow> ('w, unit) prog" where
  "setenv k v s = (Inr (), s\<lparr>environ := (environ s)(k \<mapsto> v)\<rparr>, [Setenv k v])"

text \<open>
  \<open>subprocess.run(cmd, check=True)\<close>: an argument that is neither a string nor a path is a
  \<open>TypeError\<close> before any process starts.
\<close>

fun is_arg :: "pyval \<Rightarrow> bool" where
  "is_arg (VStr s) = True"
| "is_arg (VPath p) = True"
| "is_arg v = False"

definition subprocess_run :: "'w system \<Rightarrow> pyval list \<Rightarrow> ('w, unit) prog" where
  "subprocess_run sys cmd =
     (if list_all is_arg cmd then call sys (Subprocess_run cmd) else throw TypeError)"

text \<open>The three secrets; a secret that was not found is \<open>None\<close>.\<close>

record secrets =
  GITHUB_TOKEN :: "string option"
  KAGGLE_USERNAME :: "string option"
  KAGGLE_KEY :: "string option"

fun opt_truthy :: "string option \<Rightarrow> bool" where
  "opt_truthy None = False"
| "opt_truthy (Some s) = (s \<noteq> [])"

fun opt_val :: "string option \<Rightarrow> pyval" where
  "opt_val None = VNone"
| "opt_val (Some s) = VStr s"

section \<open>The program\<close>

subsection \<open>install_packages\<close>

definition install_packages :: "'w system \<Rightarrow> pyval \<Rightarrow> ('w, unit) prog" where
  "install_packages sys config =
     seq (enter ''install_packages'' [config]) (\<lambda>_.
     seq (lift (py_get config ''packages'' (VList []))) (\<lambda>packages.
     if \<not> truthy packages then say ''[EnvKit] Info: No package installation tasks found'' []
     else
       let packages = (if is_str packages then VList [packages] else packages) in
       seq (lift (py_len packages)) (\<lambda>n.
       seq (say ''[EnvKit] Info: Installing {} packages...'' [VInt n]) (\<lambda>_.
       seq (lift (py_iter packages)) (\<lambda>items.
       catch
         (seq (subprocess_run sys
                 ([VStr (executable sys), VStr ''-m'', VStr ''pip'', VStr ''install''] @ items)) (\<lambda>_.
          say ''[EnvKit] Info: Package installation completed'' []))
         called_process_error
         (\<lambda>e. say ''[EnvKit] Warning: Package installation failed ({})'' [VExn e]))))))"

subsection \<open>detect_platform and get_secrets\<close>

definition kaggle_dirs :: "ppath list" where
  "kaggle_dirs =
     [parse_path ''/kaggle/'', parse_path ''/kaggle/input/'',
      parse_path ''/kaggle/working/'', parse_path ''/kaggle/temp/'']"

text \<open>\<open>p1.exists() and p2.exists() and ...\<close>: the first path that is missing ends the test.\<close>

fun all_exist :: "'w system \<Rightarrow> ppath list \<Rightarrow> ('w, bool) prog" where
  "all_exist sys [] = ret True"
| "all_exist sys (p # ps) =
     seq (exists_path sys p) (\<lambda>found. if found then all_exist sys ps else ret False)"

definition detect_platform :: "'w system \<Rightarrow> ('w, pyval) prog" where
  "detect_platform sys s =
     (case colab_import sys (world s) of
        None \<Rightarrow> ret (VStr ''colab'') s
      | Some e \<Rightarrow>
          if e \<noteq> ImportError then throw e s
          else seq (all_exist sys kaggle_dirs) (\<lambda>kaggle.
               if kaggle then ret (VStr ''kaggle'') else ret (VStr ''local'')) s)"

definition no_secrets :: secrets where
  "no_secrets = \<lparr>GITHUB_TOKEN = None, KAGGLE_USERNAME = None, KAGGLE_KEY = None\<rparr>"

text \<open>\<open>try: secrets[k] = store(k)\<close> with \<open>except Exception: pass\<close>: a failed lookup leaves \<open>None\<close>.\<close>

definition lookup_secret :: "(string \<Rightarrow> exn + string option) \<Rightarrow> string \<Rightarrow> string option" where
  "lookup_secret store k = (case store k of Inl e \<Rightarrow> None | Inr v \<Rightarrow> v)"

definition store_secrets :: "(string \<Rightarrow> exn + string option) \<Rightarrow> secrets" where
  "store_secrets store =
     \<lparr>GITHUB_TOKEN = lookup_secret store ''GITHUB_TOKEN'',
      KAGGLE_USERNAME = lookup_secret store ''KAGGLE_USERNAME'',
      KAGGLE_KEY = lookup_secret store ''KAGGLE_KEY''\<rparr>"

definition colab_branch :: "'w system \<Rightarrow> ('w, secrets) prog" where
  "colab_branch sys s =
     (case colab_userdata sys (world s) of
        Inr store \<Rightarrow> ret (store_secrets store) s
      | Inl e \<Rightarrow>
          if e = ImportError then
            seq (say ''[EnvKit] Warning: Failed to import userdata from google.colab'' []) (\<lambda>_.
            seq (say ''[EnvKit] Warning: Skipped colab secrets'' []) (\<lambda>_.
            ret no_secrets)) s
          else throw e s)"

definition kaggle_branch :: "'w system \<Rightarrow> ('w, secrets) prog" where
  "kaggle_branch sys s =
     (case kaggle_secrets sys (world s) of
        Inr store \<Rightarrow> ret (store_secrets store) s
      | Inl e \<Rightarrow>
          if e = ImportError then
            seq (say ''[EnvKit] Warning: Failed to import UserSecretsClient from kaggle_secrets'' []) (\<lambda>_.
            seq (say ''[EnvKit] Warning: Skipped kaggle secrets'' []) (\<lambda>_.
            ret no_secrets)) s
          else throw e s)"

text \<open>
  The local branch: \<open>load_dotenv()\<close> writes the variables of the \<open>.env\<close> file into the
  environment of the process, then the three names are read from the environment.
\<close>

definition local_branch :: "'w system \<Rightarrow> ('w, secrets) prog" where
  "local_branch sys s =
     (case load_dotenv sys (world s) (environ s) of
        (None, env) \<Rightarrow>
          ret \<lparr>GITHUB_TOKEN = env ''GITHUB_TOKEN'',
               KAGGLE_USERNAME = env ''KAGGLE_USERNAME'',
               KAGGLE_KEY = env ''KAGGLE_KEY''\<rparr> (s\<lparr>environ := env\<rparr>)
      | (Some e, env) \<Rightarrow>
          seq (say ''[EnvKit] Warning: Failed to load .env ({})'' [VExn e]) (\<lambda>_.
          seq (say ''[EnvKit] Warning: Skipped .env'' []) (\<lambda>_.
          ret no_secrets)) (s\<lparr>environ := env\<rparr>))"

definition warn_missing :: "string option \<Rightarrow> string \<Rightarrow> ('w, unit) prog" where
  "warn_missing v msg = (if v = None then say msg [] else ret ())"

definition get_secrets :: "'w system \<Rightarrow> pyval \<Rightarrow> ('w, secrets) prog" where
  "get_secrets sys platform =
     seq (enter ''get_secrets'' [platform]) (\<lambda>_.
     seq (say ''[EnvKit] Info: Loading secrets for platform {}...'' [platform]) (\<lambda>_.
     seq (if platform = VStr ''colab'' then colab_branch sys
          else if platform = VStr ''kaggle'' then kaggle_branch sys
          else local_branch sys) (\<lambda>secrets.
     seq (warn_missing (GITHUB_TOKEN secrets) ''[EnvKit] Warning: GITHUB_TOKEN not found'') (\<lambda>_.
     seq (warn_missing (KAGGLE_USERNAME secrets) ''[EnvKit] Warning: KAGGLE_USERNAME not found'') (\<lambda>_.
     seq (warn_missing (KAGGLE_KEY secrets) ''[EnvKit] Warning: KAGGLE_KEY not found'') (\<lambda>_.
     ret secrets))))))"

subsection \<open>extract_file and execute_script\<close>

definition tar_names :: "string list" where
  "tar_names = [''.tar'', ''.tar.gz'', ''.tar.xz'', ''.tgz'']"

text \<open>
  In the \<open>try\<close> block, the branch of an unknown format returns from the function; the
  value \<open>False\<close> of the first step stands for that \<open>return\<close>.
\<close>

definition extract_file :: "'w system \<Rightarrow> pyval \<Rightarrow> pyval \<Rightarrow> pyval \<Rightarrow> ('w, unit) prog" where
  "extract_file sys file_path extract_to remove_archieve =
     seq (enter ''extract_file'' [file_path, extract_to, remove_archieve]) (\<lambda>_.
     seq (lift (py_Path file_path)) (\<lambda>path.
     seq (exists_path sys path) (\<lambda>ex.
     if \<not> ex then say ''[EnvKit] Warning: File not found ({})'' [file_path]
     else
       seq (is_file_path sys path) (\<lambda>isf.
       if \<not> isf then say ''[EnvKit] Warning: Not a file ({})'' [file_path]
       else
         let target_dir = (if truthy extract_to then extract_to else VPath (path_parent path)) in
         seq (say ''[EnvKit] Info: Extracting {} -> {}'' [VStr (path_name path), target_dir]) (\<lambda>_.
         catch
           (seq (if path_suffix path = ''.zip'' then
                   seq (call sys (Zip_extractall path target_dir)) (\<lambda>_. ret True)
                 else if list_ex (endswith (path_name path)) tar_names then
                   seq (call sys (Tar_extractall path target_dir)) (\<lambda>_. ret True)
                 else
                   seq (say ''[EnvKit] Warning: Unknown archive format ({})'' [file_path]) (\<lambda>_.
                   seq (say ''[EnvKit] Warning: Skipped extraction'' []) (\<lambda>_.
                   ret False))) (\<lambda>extracted.
            if \<not> extracted then ret ()
            else
              seq (say ''[EnvKit] Info: Extraction completed.'' []) (\<lambda>_.
              if truthy remove_archieve then
                seq (call sys (Os_remove path)) (\<lambda>_.
                say ''[EnvKit] Info: Removed source archieve ({})'' [VStr (path_name path)])
              else ret ())))
           any_exception
           (\<lambda>e. say ''[EnvKit] Warning: Extraction failed ({})'' [VExn e]))))))"

text \<open>
  Here too \<open>False\<close> stands for the \<open>return\<close> inside the \<open>try\<close> block (the converted script
  is missing).
\<close>

definition execute_script :: "'w system \<Rightarrow> pyval \<Rightarrow> ('w, unit) prog" where
  "execute_script sys script_path =
     seq (enter ''execute_script'' [script_path]) (\<lambda>_.
     seq (lift (py_Path script_path)) (\<lambda>path.
     seq (exists_path sys path) (\<lambda>ex.
     if \<not> ex then say ''[EnvKit] Warning: Script not found ({})'' [script_path]
     else
       seq (is_file_path sys path) (\<lambda>isf.
       if \<not> isf then say ''[EnvKit] Warning: Not a file ({})'' [script_path]
       else
         seq (say ''[EnvKit] Info: Executing script ({})'' [script_path]) (\<lambda>_.
         catch
           (seq (if path_suffix path = ''.ipynb'' then
                   seq (say ''[EnvKit] Info: Converting notebook to python script...'' []) (\<lambda>_.
                   seq (subprocess_run sys
                          [VStr (executable sys), VStr ''-m'', VStr ''jupyter'', VStr ''nbconvert'',
                           VStr ''--to'', VStr ''python'', VStr (path_str path)]) (\<lambda>_.
                   seq (lift (with_suffix path ''.py'')) (\<lambda>py_file_path.
                   seq (exists_path sys py_file_path) (\<lambda>found.
                   if \<not> found then
                     seq (say ''[EnvKit] Warning: Converted script not found ({})'' [VPath py_file_path]) (\<lambda>_.
                     ret False)
                   else
                     seq (say ''[EnvKit] Info: Running converted script ({})'' [VPath py_file_path]) (\<lambda>_.
                     seq (subprocess_run sys
                            [VStr (executable sys), VStr (path_str py_file_path)]) (\<lambda>_.
                     ret True))))))
                 else if path_suffix path = ''.py'' then
                   seq (say ''[EnvKit] Info: Running script ({})'' [VPath path]) (\<lambda>_.
                   seq (subprocess_run sys [VStr (executable sys), VStr (path_str path)]) (\<lambda>_.
                   ret True))
                 else
                   seq (say ''[EnvKit] Warning: Skipped execution for non-python file ({})''
                          [VStr (path_name path)]) (\<lambda>_.
                   ret True)) (\<lambda>finished.
            if finished then say ''[EnvKit] Info: Execution finished successfully.'' []
            else ret ()))
           called_process_error
           (\<lambda>e. say ''[EnvKit] Warning: Execution failed ({})'' [VExn e]))))))"

subsection \<open>download_file, download_github and download_kaggle\<close>

definition download_file :: "'w system \<Rightarrow> pyval \<Rightarrow> pyval \<Rightarrow> ('w, unit) prog" where
  "download_file sys url target_path =
     seq (enter ''download_file'' [url, target_path]) (\<lambda>_.
     seq (say ''[EnvKit] Info: Downloading from URL ({} -> {})'' [url, target_path]) (\<lambda>_.
     catch
       (seq (lift (py_Path target_path)) (\<lambda>p.
        seq (call sys (Mkdir_parents (path_parent p))) (\<lambda>_.
        seq (call sys (Urlretrieve url target_path)) (\<lambda>_.
        say ''[EnvKit] Info: Download completed'' []))))
       any_exception
       (\<lambda>e. say ''[EnvKit] Warning: Download failed ({})'' [VExn e])))"

text \<open>
  The clone URL: with a token, and a URL that starts with \<open>https://\<close>, every \<open>https://\<close>
  of the URL becomes \<open>https://<token>@\<close>.
\<close>

definition clone_url :: "pyval \<Rightarrow> string option \<Rightarrow> exn + pyval" where
  "clone_url url token =
     (case token of
        None \<Rightarrow> Inr url
      | Some t \<Rightarrow>
          if t = [] then Inr url
          else (case py_startswith url ''https://'' of
                  Inl e \<Rightarrow> Inl e
                | Inr b \<Rightarrow> if b then py_replace url ''https://'' (''https://'' @ t @ ''@'')
                           else Inr url))"

text \<open>
  The URL a \<open>github_file\<close> is fetched from: with \<open>github.com\<close> and \<open>/blob/\<close> both in the URL,
  the first is replaced by the raw-content host and then \<open>/blob/\<close> by \<open>/\<close>.
\<close>

definition raw_url_of :: "pyval \<Rightarrow> exn + pyval" where
  "raw_url_of url =
     (case py_in ''github.com'' url of
        Inl e \<Rightarrow> Inl e
      | Inr g \<Rightarrow>
          (case (if g then py_in ''/blob/'' url else Inr False) of
             Inl e \<Rightarrow> Inl e
           | Inr b \<Rightarrow>
               if b then
                 (case py_replace url ''github.com'' ''raw.githubusercontent.com'' of
                    Inl e \<Rightarrow> Inl e
                  | Inr u \<Rightarrow> py_replace u ''/blob/'' ''/'')
               else Inr url))"

definition auth_header :: "string option \<Rightarrow> string option" where
  "auth_header token = (if opt_truthy token then Some (''token '' @ the token) else None)"

definition download_github ::
  "'w system \<Rightarrow> pyval \<Rightarrow> pyval \<Rightarrow> string \<Rightarrow> string option \<Rightarrow> ('w, unit) prog" where
  "download_github sys url target_path resource_type token =
     seq (enter ''download_github'' [url, target_path, VStr resource_type, opt_val token]) (\<lambda>_.
     seq (say ''[EnvKit] Info: Processing github {} ({} -> {})''
            [VStr resource_type, url, target_path]) (\<lambda>_.
     if resource_type = ''repo'' then
       seq (lift (clone_url url token)) (\<lambda>final_url.
       catch
         (seq (lift (py_Path target_path)) (\<lambda>p.
          seq (exists_path sys p) (\<lambda>ex.
          if ex then
            seq (say ''[EnvKit] Warning: Target path {} already exists'' [target_path]) (\<lambda>_.
            say ''[EnvKit] Warning: Skipped clone'' [])
          else
            seq (subprocess_run sys [VStr ''git'', VStr ''clone'', final_url, target_path]) (\<lambda>_.
            say ''[EnvKit] Info: Git clone completed'' []))))
         called_process_error
         (\<lambda>e. say ''[EnvKit] Warning: Git clone failed ({})'' [VExn e]))
     else if resource_type = ''file'' then
       seq (lift (py_in ''/tree/'' url)) (\<lambda>folder.
       if folder then
         seq (say ''[EnvKit] Warning: URL contains '/tree/', which is a folder'' []) (\<lambda>_.
         say ''[EnvKit] Warning: 'github_file' is for single file only'' [])
       else
         seq (lift (raw_url_of url)) (\<lambda>raw_url.
         catch
           (seq (lift (case request_check sys raw_url of None \<Rightarrow> Inr () | Some e \<Rightarrow> Inl e)) (\<lambda>_.
            seq (lift (py_Path target_path)) (\<lambda>p.
            seq (call sys (Mkdir_parents (path_parent p))) (\<lambda>_.
            seq (call sys (Urlopen_to_file raw_url (auth_header token) target_path)) (\<lambda>_.
            say ''[EnvKit] Info: GitHub file download completed'' [])))))
           any_exception
           (\<lambda>e. seq (say ''[EnvKit] Warning: GitHub file download failed ({})'' [VExn e]) (\<lambda>_.
                say ''[EnvKit] Debug: Raw URL is {}'' [raw_url]))))
     else say ''[EnvKit] Warning: Unknown resource type ({})'' [VStr resource_type]))"

text \<open>With a resource type other than the two, \<open>cmd\<close> is unbound when it is extended.\<close>

definition download_kaggle :: "'w system \<Rightarrow> pyval \<Rightarrow> pyval \<Rightarrow> string \<Rightarrow> ('w, unit) prog" where
  "download_kaggle sys name target_path resource_type =
     seq (enter ''download_kaggle'' [name, target_path, VStr resource_type]) (\<lambda>_.
     seq (say ''[EnvKit] Info: Downloading kaggle {} ({} -> {})''
            [VStr resource_type, name, target_path]) (\<lambda>_.
     seq (if resource_type = ''competition_files'' then
            ret [VStr ''kaggle'', VStr ''competitions'', VStr ''download'', VStr ''-c'']
          else if resource_type = ''dataset'' then
            ret [VStr ''kaggle'', VStr ''datasets'', VStr ''download'', VStr ''-d'']
          else throw UnboundLocalError) (\<lambda>cmd.
     catch
       (seq (subprocess_run sys (cmd @ [name, VStr ''-p'', target_path])) (\<lambda>_.
        say ''[EnvKit] Info: Kaggle download completed'' []))
       called_process_error
       (\<lambda>e. seq (say ''[EnvKit] Warning: Kaggle download failed ({})'' [VExn e]) (\<lambda>_.
            seq (say ''[EnvKit] Tip: Check if the competition/dataset name is correct'' []) (\<lambda>_.
            say ''[EnvKit] Tip: Check if you accepted the competition rules on Kaggle website'' []))))))"

subsection \<open>process_downloads\<close>

text \<open>
  The first part of the loop body: the download chosen by the first source key the task
  has. Its result is \<open>kaggle_downloaded_archive_path\<close>, which stays \<open>None\<close> unless a Kaggle
  branch ran.
\<close>

definition fetch :: "'w system \<Rightarrow> secrets \<Rightarrow> pyval \<Rightarrow> pyval \<Rightarrow> ('w, pyval) prog" where
  "fetch sys secrets task target_path =
     seq (lift (py_in ''url'' task)) (\<lambda>has_url.
     if has_url then
       seq (lift (py_item task ''url'')) (\<lambda>url.
       seq (download_file sys url target_path) (\<lambda>_. ret VNone))
     else
     seq (lift (py_in ''github_file'' task)) (\<lambda>has_file.
     if has_file then
       seq (lift (py_item task ''github_file'')) (\<lambda>url.
       seq (download_github sys url target_path ''file'' (GITHUB_TOKEN secrets)) (\<lambda>_. ret VNone))
     else
     seq (lift (py_in ''github_repo'' task)) (\<lambda>has_repo.
     if has_repo then
       seq (lift (py_item task ''github_repo'')) (\<lambda>url.
       seq (download_github sys url target_path ''repo'' (GITHUB_TOKEN secrets)) (\<lambda>_. ret VNone))
     else
     seq (lift (py_in ''kaggle_competition'' task)) (\<lambda>has_competition.
     if has_competition then
       seq (lift (py_item task ''kaggle_competition'')) (\<lambda>name.
       seq (download_kaggle sys name target_path ''competition_files'') (\<lambda>_.
       seq (lift (py_Path target_path)) (\<lambda>p.
       ret (VPath (path_join p (fstring name @ ''.zip''))))))
     else
     seq (lift (py_in ''kaggle_dataset'' task)) (\<lambda>has_dataset.
     if has_dataset then
       seq (lift (py_item task ''kaggle_dataset'')) (\<lambda>name.
       seq (download_kaggle sys name target_path ''dataset'') (\<lambda>_.
       seq (lift (py_split_last name)) (\<lambda>dataset_slug.
       seq (lift (py_Path target_path)) (\<lambda>p.
       ret (VPath (path_join p (dataset_slug @ ''.zip'')))))))
     else ret VNone)))))"

text \<open>
  The extraction step. \<open>task.get('extract') is True\<close> holds for the boolean \<open>True\<close> alone.
  The step gives the value of \<open>target_path\<close> after it: it is reassigned inside the \<open>if\<close>,
  for a task with a Kaggle key.
\<close>

definition extract_step :: "'w system \<Rightarrow> pyval \<Rightarrow> pyval \<Rightarrow> pyval \<Rightarrow> ('w, pyval) prog" where
  "extract_step sys task target_path kaggle_downloaded_archive_path =
     seq (lift (py_get task ''extract'' VNone)) (\<lambda>flag.
     if flag = VBool True then
       seq (lift (py_get task ''extract_to'' VNone)) (\<lambda>extract_to.
       seq (lift (py_get task ''remove_compression'' (VBool False))) (\<lambda>remove_archieve.
       seq (lift (py_in ''kaggle_competition'' task)) (\<lambda>has_competition.
       seq (if has_competition then ret True else lift (py_in ''kaggle_dataset'' task)) (\<lambda>kaggle.
       let target_path = (if kaggle then kaggle_downloaded_archive_path else target_path) in
       seq (extract_file sys target_path extract_to remove_archieve) (\<lambda>_.
       ret target_path)))))
     else ret target_path)"

definition execute_step :: "'w system \<Rightarrow> pyval \<Rightarrow> pyval \<Rightarrow> ('w, unit) prog" where
  "execute_step sys task target_path =
     seq (lift (py_get task ''execute'' VNone)) (\<lambda>flag.
     if flag = VBool True then execute_script sys target_path else ret ())"

text \<open>The body of the loop over the tasks.\<close>

definition process_task :: "'w system \<Rightarrow> secrets \<Rightarrow> pyval \<Rightarrow> ('w, unit) prog" where
  "process_task sys secrets task =
     seq (lift (py_get task ''path'' (VStr ''.''))) (\<lambda>target_path.
     seq (fetch sys secrets task target_path) (\<lambda>kaggle_downloaded_archive_path.
     seq (extract_step sys task target_path kaggle_downloaded_archive_path) (\<lambda>target_path.
     execute_step sys task target_path)))"

fun process_tasks :: "'w system \<Rightarrow> secrets \<Rightarrow> pyval list \<Rightarrow> ('w, unit) prog" where
  "process_tasks sys secrets [] = ret ()"
| "process_tasks sys secrets (task # tasks) =
     seq (process_task sys secrets task) (\<lambda>_. process_tasks sys secrets tasks)"

definition process_downloads :: "'w system \<Rightarrow> pyval \<Rightarrow> secrets \<Rightarrow> ('w, unit) prog" where
  "process_downloads sys config secrets =
     seq (enter ''process_downloads'' [config]) (\<lambda>_.
     seq (lift (py_get config ''download'' (VList []))) (\<lambda>tasks.
     if \<not> truthy tasks then say ''[EnvKit] Info: No download tasks found'' []
     else
       let tasks = (if is_dict tasks then VList [tasks] else tasks) in
       seq (lift (py_len tasks)) (\<lambda>n.
       seq (say ''[EnvKit] Info: Processing {} download tasks...'' [VInt n]) (\<lambda>_.
       seq (lift (py_iter tasks)) (\<lambda>tasks.
       process_tasks sys secrets tasks)))))"

subsection \<open>setup and main\<close>

text \<open>What \<open>setup\<close> returns: \<open>True\<close>, \<open>False\<close>, or \<open>None\<close> from the bare \<open>return\<close>.\<close>

datatype retval = RTrue | RFalse | RNone

definition platforms :: "pyval list" where
  "platforms = [VStr ''auto'', VStr ''colab'', VStr ''kaggle'', VStr ''local'']"

definition set_kaggle_credentials :: "secrets \<Rightarrow> ('w, unit) prog" where
  "set_kaggle_credentials secrets =
     (if opt_truthy (KAGGLE_USERNAME secrets) \<and> opt_truthy (KAGGLE_KEY secrets) then
        seq (setenv ''KAGGLE_USERNAME'' (the (KAGGLE_USERNAME secrets))) (\<lambda>_.
        seq (setenv ''KAGGLE_KEY'' (the (KAGGLE_KEY secrets))) (\<lambda>_.
        say ''[EnvKit] Info: Kaggle credentials set for {}'' [opt_val (KAGGLE_USERNAME secrets)]))
      else say ''[EnvKit] Warning: Kaggle credentials not set'' [])"

definition configure :: "'w system \<Rightarrow> pyval \<Rightarrow> ('w, retval) prog" where
  "configure sys config =
     seq (lift (py_get config ''platform'' (VStr ''auto''))) (\<lambda>platform.
     if platform \<notin> set platforms then
       seq (say ''[EnvKit] Error: Invalid platform ({})'' [platform]) (\<lambda>_. ret RNone)
     else
       seq (if platform = VStr ''auto'' then detect_platform sys else ret platform) (\<lambda>platform.
       seq (say ''[EnvKit] Info: Platform is {}'' [platform]) (\<lambda>_.
       seq (get_secrets sys platform) (\<lambda>secrets.
       seq (set_kaggle_credentials secrets) (\<lambda>_.
       seq (install_packages sys config) (\<lambda>_.
       seq (process_downloads sys config secrets) (\<lambda>_.
       ret RTrue)))))))"

text \<open>
  \<open>setup\<close> (here \<open>setup_envkit\<close>): the configuration is read and parsed; \<open>configure\<close> is
  the rest of the function, from \<open>Get the platform\<close> on.
\<close>

definition setup_envkit :: "'w system \<Rightarrow> string \<Rightarrow> ('w, retval) prog" where
  "setup_envkit sys yaml_path s =
     (case load_config sys (world s) yaml_path of
        Inl e \<Rightarrow>
          if e = FileNotFoundError then
            seq (say ''[EnvKit] Error: Config file not found ({})'' [VStr yaml_path]) (\<lambda>_.
            ret RFalse) s
          else if e = YAMLError then
            seq (say ''[EnvKit] Error: YAML syntax error ({})'' [VExn e]) (\<lambda>_. ret RFalse) s
          else throw e s
      | Inr config \<Rightarrow>
          seq (say ''[EnvKit] Info: Config file is {}'' [VStr yaml_path]) (\<lambda>_.
          configure sys config) s)"

text \<open>
  \<open>main\<close> for the command \<open>setup -p yaml_path\<close>: the exit code of the process is
  \<open>0 if is_successful else 1\<close>, and \<open>1\<close> when an exception leaves \<open>setup\<close>.
\<close>

definition main :: "'w system \<Rightarrow> string \<Rightarrow> 'w machine \<Rightarrow> int \<times> 'w machine \<times> event list" where
  "main sys yaml_path s =
     (case setup_envkit sys yaml_path s of
        (Inl e, s1, t) \<Rightarrow> (1, s1, t)
      | (Inr is_successful, s1, t) \<Rightarrow> ((if is_successful = RTrue then 0 else 1), s1, t))"

section \<open>Observing a run\<close>

text \<open>The three components of what a piece of program gives from a state.\<close>

definition result_of :: "('w, 'a) prog \<Rightarrow> 'w machine \<Rightarrow> exn + 'a" where
  "result_of m s = fst (m s)"

definition state_of :: "('w, 'a) prog \<Rightarrow> 'w machine \<Rightarrow> 'w machine" where
  "state_of m s = fst (snd (m s))"

definition events_of :: "('w, 'a) prog \<Rightarrow> 'w machine \<Rightarrow> event list" where
  "events_of m s = snd (snd (m s))"

text \<open>The argument lists of the entries into the function \<open>name\<close>, in order.\<close>

fun entries :: "string \<Rightarrow> event list \<Rightarrow> pyval list list" where
  "entries name [] = []"
| "entries name (Enter n args # t) = (if n = name then args # entries name t else entries name t)"
| "entries name (e # t) = entries name t"

text \<open>The calls that left the program, in order, and the writes to the environment.\<close>

fun calls :: "event list \<Rightarrow> call list" where
  "calls [] = []"
| "calls (Call c # t) = c # calls t"
| "calls (e # t) = calls t"

fun setenvs :: "event list \<Rightarrow> (string \<times> string) list" where
  "setenvs [] = []"
| "setenvs (Setenv k v # t) = (k, v) # setenvs t"
| "setenvs (e # t) = setenvs t"

text \<open>
  A piece of program is \<open>quiet\<close> for a list of function names when it leaves the
  environment variables as they are, writes none, and enters the listed functions only.
\<close>

fun inner :: "string list \<Rightarrow> event \<Rightarrow> bool" where
  "inner names (Enter n args) = (n \<in> set names)"
| "inner names (Setenv k v) = False"
| "inner names e = True"

definition quiet :: "string list \<Rightarrow> ('w, 'a) prog \<Rightarrow> bool" where
  "quiet names m = (\<forall>s. environ (state_of m s) = environ s \<and> list_all (inner names) (events_of m s))"

definition fetchers :: "string list" where
  "fetchers = [''download_file'', ''download_github'', ''download_kaggle'']"

text \<open>The names of all the functions a task can enter.\<close>

definition workers :: "string list" where
  "workers = fetchers @ [''extract_file'', ''execute_script'']"

text \<open>
  The call \<open>subprocess.run(['git', 'clone', final_url, target_path], check=True)\<close> of
  \<open>download_github\<close>, and the pieces of program that never make it.
\<close>

fun git_clone :: "event \<Rightarrow> bool" where
  "git_clone (Call (Subprocess_run cmd)) =
     (length cmd = 4 \<and> take 2 cmd = [VStr ''git'', VStr ''clone''])"
| "git_clone e = False"

definition clone_free :: "('w, 'a) prog \<Rightarrow> bool" where
  "clone_free m = (\<forall>s. filter git_clone (events_of m s) = [])"

text \<open>\<open>d.get(k, dflt)\<close> on the items of a mapping.\<close>

definition field :: "(pyval \<times> pyval) list \<Rightarrow> string \<Rightarrow> pyval \<Rightarrow> pyval" where
  "field kvs k dflt = (case map_of kvs (VStr k) of Some v \<Rightarrow> v | None \<Rightarrow> dflt)"

section \<open>A sample world\<close>

text \<open>
  A small world to run the program in: the world is the list of the paths that exist (all
  of them regular files), \<open>outcome\<close> tells which calls raise, no call changes the world,
  nothing can be imported, the configuration file is missing and the \<open>.env\<close> file is empty.
\<close>

definition sample_system :: "(call \<Rightarrow> exn option) \<Rightarrow> (ppath list) system" where
  "sample_system outcome =
     \<lparr>executable = ''python3'',
      perform = (\<lambda>w c. (outcome c, w)),
      path_exists = (\<lambda>w p. Inr (p \<in> set w)),
      path_is_file = (\<lambda>w p. Inr (p \<in> set w)),
      request_check = (\<lambda>u. None),
      load_config = (\<lambda>w p. Inl FileNotFoundError),
      colab_import = (\<lambda>w. Some ImportError),
      colab_userdata = (\<lambda>w. Inl ImportError),
      kaggle_secrets = (\<lambda>w. Inl ImportError),
      load_dotenv = (\<lambda>w env. (None, env))\<rparr>"

definition all_succeed :: "call \<Rightarrow> exn option" where
  "all_succeed c = None"

definition sample_machine :: "ppath list \<Rightarrow> (ppath list) machine" where
  "sample_machine files = \<lparr>world = files, environ = (\<lambda>k. None)\<rparr>"


text \<open>The same system with a configuration file that parses to \<open>config\<close>.\<close>

definition with_config :: "pyval \<Rightarrow> 'w system \<Rightarrow> 'w system" where
  "with_config config sys = sys\<lparr>load_config := (\<lambda>w p. Inr config)\<rparr>"

text \<open>
  A \<open>.env\<close> file with the given variables, loaded as \<open>load_dotenv()\<close> does by default: a
  variable that is already set keeps its value.
\<close>

definition dotenv_file :: "(string \<times> string) list \<Rightarrow> 'w \<Rightarrow> (string \<Rightarrow> string option) \<Rightarrow> exn option \<times> (string \<Rightarrow> string option)" where
  "dotenv_file vars w env = (None, (\<lambda>k. case env k of Some v \<Rightarrow> Some v | None \<Rightarrow> map_of vars k))"

text \<open>Some tasks.\<close>

definition titanic_dataset :: "(pyval \<times> pyval) list" where
  "titanic_dataset =
     [(VStr ''kaggle_dataset'', VStr ''alice/titanic''), (VStr ''path'', VStr ''/data''),
      (VStr ''extract'', VBool True), (VStr ''execute'', VBool True)]"

definition rooted_competition :: "(pyval \<times> pyval) list" where
  "rooted_competition =
     [(VStr ''kaggle_competition'', VStr ''/data/x''), (VStr ''path'', VStr ''/data/x.zip''),
      (VStr ''extract'', VBool True)]"

definition titanic_competition :: "(pyval \<times> pyval) list" where
  "titanic_competition =
     [(VStr ''kaggle_competition'', VStr ''titanic''), (VStr ''path'', VStr ''/data''),
      (VStr ''execute'', VBool True)]"

definition house_prices :: "(pyval \<times> pyval) list" where
  "house_prices = [(VStr ''kaggle_competition'', VStr ''house-prices''), (VStr ''extract'', VBool True)]"

definition remote_script :: "(pyval \<times> pyval) list" where
  "remote_script =
     [(VStr ''url'', VStr ''https://x/run.py''), (VStr ''path'', VStr ''run.py''),
      (VStr ''execute'', VBool True)]"

definition local_script :: "(pyval \<times> pyval) list" where
  "local_script =
     [(VStr ''path'', VStr ''run.py''), (VStr ''extract'', VBool True), (VStr ''execute'', VBool True)]"

text \<open>
  A Colab session whose secret store holds the given secrets (a lookup of any other name
  raises), and a local machine with the given \<open>.env\<close> file and the configuration
  \<open>platform: local\<close>.
\<close>

definition colab_system :: "(string \<times> string) list \<Rightarrow> (ppath list) system" where
  "colab_system stored =
     (sample_system all_succeed)
       \<lparr>colab_import := (\<lambda>w. None),
        colab_userdata := (\<lambda>w. Inr (\<lambda>k. case map_of stored k of
                                          Some v \<Rightarrow> Inr (Some v)
                                        | None \<Rightarrow> Inl (OtherException ''SecretNotFoundError'')))\<rparr>"

definition local_system :: "(string \<times> string) list \<Rightarrow> (ppath list) system" where
  "local_system vars =
     with_config (VDict [(VStr ''platform'', VStr ''local'')])
       ((sample_system all_succeed)\<lparr>load_dotenv := dotenv_file vars\<rparr>)"

text \<open>
  A file system that refuses a name longer than 255 characters, as Linux does with
  \<open>ENAMETOOLONG\<close>: \<open>Path.exists\<close> and \<open>Path.is_file\<close> raise \<open>OSError\<close> on such a path. The task
  \<open>{path: aaa...a (300 times), extract: true, execute: true}\<close> names one.
\<close>

definition name_too_long :: "ppath \<Rightarrow> bool" where
  "name_too_long p = list_ex (\<lambda>c. 255 < length c) (pparts p)"

definition strict_system :: "(ppath list) system" where
  "strict_system =
     (sample_system all_succeed)
       \<lparr>path_exists := (\<lambda>w p. if name_too_long p then Inl OSError else Inr (p \<in> set w)),
        path_is_file := (\<lambda>w p. if name_too_long p then Inl OSError else Inr (p \<in> set w))\<rparr>"

definition long_script :: "(pyval \<times> pyval) list" where
  "long_script =
     [(VStr ''path'', VStr (replicate 300 CHR ''a'')), (VStr ''extract'', VBool True),
      (VStr ''execute'', VBool True)]"

text \<open>
  A file system where \<open>os.remove\<close> does remove the file, and a \<open>github_repo\<close> task whose
  path is an archive that exists already:
  \<open>{github_repo: https://github.com/o/r, path: /work/r.zip, extract: true, remove_compression: true}\<close>.
\<close>

fun removing :: "ppath list \<Rightarrow> call \<Rightarrow> exn option \<times> ppath list" where
  "removing w (Os_remove p) = (None, removeAll p w)"
| "removing w c = (None, w)"

definition disk_system :: "(ppath list) system" where
  "disk_system = (sample_system all_succeed)\<lparr>perform := removing\<rparr>"

definition zipped_repo :: "(pyval \<times> pyval) list" where
  "zipped_repo =
     [(VStr ''github_repo'', VStr ''https://github.com/o/r''), (VStr ''path'', VStr ''/work/r.zip''),
      (VStr ''extract'', VBool True), (VStr ''remove_compression'', VBool True)]"

section \<open>Notions of the specification\<close>

text \<open>
  The host of a URL, for the reading "a URL on host \<open>github.com\<close>": the text between the
  first \<open>://\<close> and the next \<open>/\<close>.
\<close>

fun after_scheme :: "string \<Rightarrow> string" where
  "after_scheme [] = []"
| "after_scheme (c # cs) = (if startswith (c # cs) ''://'' then drop 3 (c # cs) else after_scheme cs)"

definition url_host :: "string \<Rightarrow> string" where
  "url_host u = takeWhile (\<lambda>c. c \<noteq> CHR ''/'') (after_scheme u)"

section \<open>Strings and paths\<close>

lemma split_sep_nonempty: "split_sep c xs \<noteq> []"
  by (induction xs) (auto split: list.splits)

lemma split_sep_append: "split_sep c (xs @ c # ys) = split_sep c xs @ split_sep c ys"
proof (induction xs)
  case Nil
  show ?case by simp
next
  case (Cons x xs)
  then show ?case
    using split_sep_nonempty[of c xs] by (cases "split_sep c xs") auto
qed

lemma split_sep_no_sep: "x \<in> set (split_sep c xs) \<Longrightarrow> c \<notin> set x"
proof (induction xs arbitrary: x)
  case Nil
  then show ?case by simp
next
  case (Cons a xs)
  then show ?case
    using split_sep_nonempty[of c xs]
    by (cases "split_sep c xs") (auto split: if_splits)
qed

lemma split_sep_single: "c \<notin> set xs \<Longrightarrow> split_sep c xs = [xs]"
  by (induction xs) auto

lemma last_split_sep: "c \<notin> set slug \<Longrightarrow> last (split_sep c (owner @ c # slug)) = slug"
  by (simp add: split_sep_append split_sep_single)

lemma last_split_sep_no_sep: "c \<notin> set (last (split_sep c xs))"
  using split_sep_no_sep[of "last (split_sep c xs)" c xs] split_sep_nonempty[of c xs]
  by (meson last_in_set)

lemma splitroot_append:
  assumes "p \<noteq> []" "p \<noteq> ''/''" "p \<noteq> ''//''"
  shows "splitroot (p @ CHR ''/'' # b) = (fst (splitroot p), snd (splitroot p) @ CHR ''/'' # b)"
proof (cases p)
  case Nil
  with assms show ?thesis by simp
next
  case p1: (Cons c p')
  show ?thesis
  proof (cases p')
    case Nil
    with p1 assms show ?thesis by (simp add: splitroot_def)
  next
    case p2: (Cons d p'')
    show ?thesis
    proof (cases p'')
      case Nil
      with p1 p2 assms show ?thesis by (simp add: splitroot_def)
    next
      case (Cons e p''')
      with p1 p2 show ?thesis by (simp add: splitroot_def)
    qed
  qed
qed

lemma parse_path_relative:
  "take 1 b \<noteq> ''/'' \<Longrightarrow>
   parse_path b = PPath [] (filter (\<lambda>x. x \<noteq> [] \<and> x \<noteq> ''.'') (split_sep CHR ''/'' b))"
  by (simp add: parse_path_def splitroot_def)

lemma path_join_as_text:
  assumes "p \<noteq> []" "p \<noteq> ''/''" "p \<noteq> ''//''" and b: "take 1 b \<noteq> ''/''"
  shows "path_join (parse_path p) b = parse_path (p @ ''/'' @ b)"
proof -
  have "parse_path (p @ ''/'' @ b) =
          PPath (fst (splitroot p))
            (filter (\<lambda>x. x \<noteq> [] \<and> x \<noteq> ''.'') (split_sep CHR ''/'' (snd (splitroot p)))
             @ filter (\<lambda>x. x \<noteq> [] \<and> x \<noteq> ''.'') (split_sep CHR ''/'' b))"
    using splitroot_append[OF assms(1-3), of b]
    by (simp add: parse_path_def split_sep_append)
  moreover have "path_join (parse_path p) b =
          PPath (fst (splitroot p))
            (filter (\<lambda>x. x \<noteq> [] \<and> x \<noteq> ''.'') (split_sep CHR ''/'' (snd (splitroot p)))
             @ filter (\<lambda>x. x \<noteq> [] \<and> x \<noteq> ''.'') (split_sep CHR ''/'' b))"
    by (simp add: path_join_def parse_path_relative[OF b] Let_def)
       (simp add: parse_path_def split: prod.splits)
  ultimately show ?thesis by simp
qed

lemma path_join_rooted:
  "take 1 b = ''/'' \<Longrightarrow> path_join p b = parse_path b"
  by (auto simp add: path_join_def parse_path_def splitroot_def Let_def)

text \<open>The archive name \<open><x>.zip\<close> always adds a component to the path it is joined to.\<close>

lemma split_sep_last_append:
  "c \<notin> set ys \<Longrightarrow> split_sep c (xs @ ys) = butlast (split_sep c xs) @ [last (split_sep c xs) @ ys]"
proof (induction xs)
  case Nil
  then show ?case by (simp add: split_sep_single)
next
  case (Cons x xs)
  then show ?case
    using split_sep_nonempty[of c xs] split_sep_nonempty[of c "xs @ ys"]
    by (cases "split_sep c xs"; cases "butlast (split_sep c xs)") (auto split: if_splits)
qed

lemma archive_name_kept:
  "last (split_sep CHR ''/'' (x @ ''.zip''))
     \<in> set (filter (\<lambda>x. x \<noteq> [] \<and> x \<noteq> ''.'') (split_sep CHR ''/'' (x @ ''.zip'')))"
proof -
  have "split_sep CHR ''/'' (x @ ''.zip'') =
          butlast (split_sep CHR ''/'' x) @ [last (split_sep CHR ''/'' x) @ ''.zip'']"
    by (rule split_sep_last_append) simp
  then show ?thesis by simp
qed

lemma path_join_archive:
  assumes "take 1 (x @ ''.zip'') \<noteq> ''/''"
  shows "path_join q (x @ ''.zip'') \<noteq> q"
proof -
  let ?parts = "filter (\<lambda>x. x \<noteq> [] \<and> x \<noteq> ''.'') (split_sep CHR ''/'' (x @ ''.zip''))"
  have "?parts \<noteq> []" using archive_name_kept[of x] by (metis empty_iff list.set(1))
  moreover have "path_join q (x @ ''.zip'') = PPath (proot q) (pparts q @ ?parts)"
    by (simp add: path_join_def parse_path_relative[OF assms] Let_def)
  ultimately show ?thesis by (cases q) simp
qed

lemma str_contains_here: "str_contains sub (sub @ b)"
proof (cases "sub @ b")
  case Nil
  then show ?thesis by simp
next
  case (Cons x xs)
  have "take (length sub) (sub @ b) = sub" by simp
  with Cons show ?thesis by (simp add: startswith_def)
qed

lemma str_contains_append: "str_contains sub (a @ sub @ b)"
  by (induction a) (simp_all add: str_contains_here)

lemma after_scheme_suffix: "\<exists>a. u = a @ after_scheme u"
proof (induction u)
  case Nil
  show ?case by simp
next
  case (Cons c cs)
  show ?case
  proof (cases "startswith (c # cs) ''://''")
    case True
    have "c # cs = take 3 (c # cs) @ drop 3 (c # cs)" by simp
    with True show ?thesis by (metis after_scheme.simps(2))
  next
    case False
    from Cons obtain a where "cs = a @ after_scheme cs" ..
    then have "c # cs = (c # a) @ after_scheme cs" by simp
    with False show ?thesis by (metis after_scheme.simps(2))
  qed
qed

lemma url_host_contained: "str_contains (url_host u) u"
proof -
  obtain a where a: "u = a @ after_scheme u" using after_scheme_suffix by blast
  have "after_scheme u = url_host u @ dropWhile (\<lambda>c. c \<noteq> CHR ''/'') (after_scheme u)"
    by (simp add: url_host_def)
  with a have "u = a @ url_host u @ dropWhile (\<lambda>c. c \<noteq> CHR ''/'') (after_scheme u)"
    by simp
  then show ?thesis by (metis str_contains_append)
qed

lemma host_github: "url_host u = ''github.com'' \<Longrightarrow> str_contains ''github.com'' u"
  using url_host_contained[of u] by simp

lemma py_in_dict: "py_in k (VDict kvs) = Inr (map_of kvs (VStr k) \<noteq> None)"
  by (simp add: map_of_eq_None_iff)

lemma py_get_field: "py_get (VDict kvs) k dflt = Inr (field kvs k dflt)"
  by (simp add: field_def)

lemma clone_url_str: "\<exists>fu. clone_url (VStr u) token = Inr fu"
  by (simp add: clone_url_def split: option.splits)

lemma raw_url_of_str:
  "raw_url_of (VStr u) =
     Inr (VStr (if str_contains ''github.com'' u \<and> str_contains ''/blob/'' u
                then replace_all ''/blob/'' ''/'' (replace_all ''github.com'' ''raw.githubusercontent.com'' u)
                else u))"
  by (simp add: raw_url_of_def)

lemma parse_path_plain:
  assumes "CHR ''/'' \<notin> set name" "name \<noteq> []" "name \<noteq> ''.''"
  shows "parse_path name = PPath [] [name]"
proof -
  from assms(1,2) have "take 1 name \<noteq> ''/''" by (cases name) auto
  with assms show ?thesis by (simp add: parse_path_relative split_sep_single)
qed

section \<open>Running the combinators\<close>

text \<open>
  The result, the state and the events of each combinator: with these equations the
  simplifier runs a piece of program step by step.
\<close>

lemma prog_eq_iff:
  "m s = (r, s', t) \<longleftrightarrow> result_of m s = r \<and> state_of m s = s' \<and> events_of m s = t"
  by (auto simp: result_of_def state_of_def events_of_def)

lemma seq_run:
  "result_of (seq m f) s = (case result_of m s of Inl e \<Rightarrow> Inl e | Inr x \<Rightarrow> result_of (f x) (state_of m s))"
  "state_of (seq m f) s = (case result_of m s of Inl e \<Rightarrow> state_of m s | Inr x \<Rightarrow> state_of (f x) (state_of m s))"
  "events_of (seq m f) s =
     events_of m s @ (case result_of m s of Inl e \<Rightarrow> [] | Inr x \<Rightarrow> events_of (f x) (state_of m s))"
  by (simp_all add: seq_def events_of_def result_of_def state_of_def split: prod.splits sum.splits)

lemma catch_run:
  "result_of (catch m handled h) s =
     (case result_of m s of
        Inl e \<Rightarrow> if handled e then result_of (h e) (state_of m s) else Inl e
      | Inr x \<Rightarrow> Inr x)"
  "state_of (catch m handled h) s =
     (case result_of m s of
        Inl e \<Rightarrow> if handled e then state_of (h e) (state_of m s) else state_of m s
      | Inr x \<Rightarrow> state_of m s)"
  "events_of (catch m handled h) s =
     events_of m s @
     (case result_of m s of
        Inl e \<Rightarrow> if handled e then events_of (h e) (state_of m s) else []
      | Inr x \<Rightarrow> [])"
  by (simp_all add: catch_def events_of_def result_of_def state_of_def split: prod.splits sum.splits)

lemma lift_run:
  "result_of (lift r) s = r" "state_of (lift r) s = s" "events_of (lift r) s = []"
  by (simp_all add: lift_def events_of_def result_of_def state_of_def)

lemma ret_run:
  "result_of (ret x) s = Inr x" "state_of (ret x) s = s" "events_of (ret x) s = []"
  by (simp_all add: ret_def events_of_def result_of_def state_of_def)

lemma throw_run:
  "result_of (throw e) s = Inl e" "state_of (throw e) s = s" "events_of (throw e) s = []"
  by (simp_all add: throw_def events_of_def result_of_def state_of_def)

lemma say_run:
  "result_of (say msg args) s = Inr ()" "state_of (say msg args) s = s"
  "events_of (say msg args) s = [Print msg args]"
  by (simp_all add: say_def events_of_def result_of_def state_of_def)

lemma enter_run:
  "result_of (enter n args) s = Inr ()" "state_of (enter n args) s = s"
  "events_of (enter n args) s = [Enter n args]"
  by (simp_all add: enter_def events_of_def result_of_def state_of_def)

lemma call_run:
  "result_of (call sys c) s = (case fst (perform sys (world s) c) of None \<Rightarrow> Inr () | Some e \<Rightarrow> Inl e)"
  "state_of (call sys c) s = s\<lparr>world := snd (perform sys (world s) c)\<rparr>"
  "events_of (call sys c) s = [Call c]"
  by (simp_all add: call_def events_of_def result_of_def state_of_def split: prod.splits option.splits)

lemma exists_path_run:
  "result_of (exists_path sys p) s = path_exists sys (world s) p"
  "state_of (exists_path sys p) s = s" "events_of (exists_path sys p) s = []"
  by (simp_all add: exists_path_def events_of_def result_of_def state_of_def)

lemma is_file_path_run:
  "result_of (is_file_path sys p) s = path_is_file sys (world s) p"
  "state_of (is_file_path sys p) s = s" "events_of (is_file_path sys p) s = []"
  by (simp_all add: is_file_path_def events_of_def result_of_def state_of_def)

lemma if_run:
  "result_of (if c then a else b) s = (if c then result_of a s else result_of b s)"
  "state_of (if c then a else b) s = (if c then state_of a s else state_of b s)"
  "events_of (if c then a else b) s = (if c then events_of a s else events_of b s)"
  by simp_all

lemmas run_simps = seq_run catch_run lift_run ret_run throw_run say_run enter_run call_run
  exists_path_run is_file_path_run

lemma seq_enter_run:
  "result_of (seq (enter n args) f) s = result_of (f ()) s"
  "state_of (seq (enter n args) f) s = state_of (f ()) s"
  "events_of (seq (enter n args) f) s = Enter n args # events_of (f ()) s"
  by (simp_all add: seq_run enter_run)

lemma seq_say_run:
  "result_of (seq (say msg args) f) s = result_of (f ()) s"
  "state_of (seq (say msg args) f) s = state_of (f ()) s"
  "events_of (seq (say msg args) f) s = Print msg args # events_of (f ()) s"
  by (simp_all add: seq_run say_run)

lemma entries_append [simp]: "entries n (t @ u) = entries n t @ entries n u"
  by (induction n t rule: entries.induct) auto

lemma calls_append [simp]: "calls (t @ u) = calls t @ calls u"
  by (induction t rule: calls.induct) auto

lemma setenvs_append [simp]: "setenvs (t @ u) = setenvs t @ setenvs u"
  by (induction t rule: setenvs.induct) auto

lemma entries_entered:
  "entries n (events_of (seq (enter n args) f) s) = args # entries n (events_of (f ()) s)"
  by (simp add: seq_run enter_run)

section \<open>Quiet programs\<close>

text \<open>
  Every combinator but \<open>setenv\<close> is quiet, and so is what is built from quiet parts: the
  functions of the program enter themselves and the functions they call, and leave the
  environment alone.
\<close>

lemma inner_entries: "list_all (inner names) t \<Longrightarrow> n \<notin> set names \<Longrightarrow> entries n t = []"
  by (induction n t rule: entries.induct) auto

lemma inner_setenvs: "list_all (inner names) t \<Longrightarrow> setenvs t = []"
  by (induction t rule: setenvs.induct) auto

lemma inner_mono: "set names \<subseteq> set names' \<Longrightarrow> inner names e \<Longrightarrow> inner names' e"
  by (cases e) auto

lemma quiet_mono: "quiet names m \<Longrightarrow> set names \<subseteq> set names' \<Longrightarrow> quiet names' m"
  unfolding quiet_def list_all_iff using inner_mono by blast

lemma quiet_ret: "quiet names (ret x)"
  by (simp add: quiet_def ret_def state_of_def events_of_def)

lemma quiet_throw: "quiet names (throw e)"
  by (simp add: quiet_def throw_def state_of_def events_of_def)

lemma quiet_lift: "quiet names (lift r)"
  by (simp add: quiet_def lift_def state_of_def events_of_def)

lemma quiet_say: "quiet names (say msg args)"
  by (simp add: quiet_def say_def state_of_def events_of_def)

lemma quiet_enter: "n \<in> set names \<Longrightarrow> quiet names (enter n args)"
  by (simp add: quiet_def enter_def state_of_def events_of_def)

lemma quiet_call: "quiet names (call sys c)"
  by (simp add: quiet_def call_def state_of_def events_of_def split: prod.splits option.splits)

lemma quiet_exists_path: "quiet names (exists_path sys p)"
  by (simp add: quiet_def exists_path_def state_of_def events_of_def)

lemma quiet_is_file_path: "quiet names (is_file_path sys p)"
  by (simp add: quiet_def is_file_path_def state_of_def events_of_def)

lemma quietD:
  "quiet names m \<Longrightarrow> m s = (r, s1, t1) \<Longrightarrow> environ s1 = environ s \<and> list_all (inner names) t1"
  unfolding quiet_def state_of_def events_of_def by (metis fst_conv snd_conv)

lemma quiet_seq:
  assumes m: "quiet names m" and f: "\<And>x. quiet names (f x)"
  shows "quiet names (seq m f)"
  unfolding quiet_def
proof
  fix s
  obtain r s1 t1 where ms: "m s = (r, s1, t1)" by (cases "m s")
  note 1 = quietD[OF m ms]
  show "environ (state_of (seq m f) s) = environ s \<and> list_all (inner names) (events_of (seq m f) s)"
  proof (cases r)
    case (Inl e)
    with ms 1 show ?thesis by (simp add: seq_def state_of_def events_of_def)
  next
    case (Inr x)
    obtain r2 s2 t2 where fs: "f x s1 = (r2, s2, t2)" by (cases "f x s1")
    note 2 = quietD[OF f fs]
    from ms Inr fs 1 2 show ?thesis by (simp add: seq_def state_of_def events_of_def)
  qed
qed

lemma quiet_catch:
  assumes m: "quiet names m" and h: "\<And>e. quiet names (h e)"
  shows "quiet names (catch m handled h)"
  unfolding quiet_def
proof
  fix s
  obtain r s1 t1 where ms: "m s = (r, s1, t1)" by (cases "m s")
  note 1 = quietD[OF m ms]
  show "environ (state_of (catch m handled h) s) = environ s
          \<and> list_all (inner names) (events_of (catch m handled h) s)"
  proof (cases r)
    case (Inr x)
    with ms 1 show ?thesis by (simp add: catch_def state_of_def events_of_def)
  next
    case (Inl e)
    obtain r2 s2 t2 where hs: "h e s1 = (r2, s2, t2)" by (cases "h e s1")
    note 2 = quietD[OF h hs]
    from ms Inl hs 1 2 show ?thesis by (simp add: catch_def state_of_def events_of_def)
  qed
qed

lemma quiet_if: "(c \<Longrightarrow> quiet names a) \<Longrightarrow> (\<not> c \<Longrightarrow> quiet names b) \<Longrightarrow> quiet names (if c then a else b)"
  by simp

lemma quiet_subprocess_run: "quiet names (subprocess_run sys cmd)"
  by (simp add: subprocess_run_def quiet_call quiet_throw)

lemmas quiet_rules = quiet_ret quiet_throw quiet_lift quiet_say quiet_call quiet_exists_path
  quiet_is_file_path quiet_seq quiet_catch quiet_if quiet_subprocess_run

lemma quiet_prog:
  assumes "\<And>s. environ (state_of m s) = environ s" "\<And>s. events_of m s = []"
  shows "quiet names m"
  using assms by (simp add: quiet_def)

lemma quiet_entries: "quiet names m \<Longrightarrow> n \<notin> set names \<Longrightarrow> entries n (events_of m s) = []"
  unfolding quiet_def using inner_entries by blast

lemma quiet_setenvs: "quiet names m \<Longrightarrow> setenvs (events_of m s) = []"
  unfolding quiet_def using inner_setenvs by blast

lemma quiet_environ: "quiet names m \<Longrightarrow> environ (state_of m s) = environ s"
  unfolding quiet_def by blast

lemma seq_quiet_tail:
  assumes "\<And>x. quiet names (f x)"
  shows "environ (state_of (seq m f) s) = environ (state_of m s)"
    and "setenvs (events_of (seq m f) s) = setenvs (events_of m s)"
  using quiet_environ[OF assms] quiet_setenvs[OF assms]
  by (simp_all add: seq_run split: sum.splits)

lemma quiet_download_file: "quiet [''download_file''] (download_file sys url target_path)"
  unfolding download_file_def by (intro quiet_rules quiet_enter) simp

lemma quiet_download_kaggle: "quiet [''download_kaggle''] (download_kaggle sys name target_path rt)"
  unfolding download_kaggle_def by (intro quiet_rules quiet_enter) simp

lemma quiet_download_github: "quiet [''download_github''] (download_github sys url target_path rt token)"
  unfolding download_github_def by (intro quiet_rules quiet_enter) simp

lemma quiet_extract_file: "quiet [''extract_file''] (extract_file sys a b c)"
  unfolding extract_file_def Let_def by (intro quiet_rules quiet_enter) simp

lemma quiet_execute_script: "quiet [''execute_script''] (execute_script sys a)"
  unfolding execute_script_def by (intro quiet_rules quiet_enter) simp

lemma quiet_install_packages: "quiet [''install_packages''] (install_packages sys config)"
  unfolding install_packages_def Let_def by (intro quiet_rules quiet_enter) simp

lemma quiet_fetch: "quiet fetchers (fetch sys secrets task target_path)"
  unfolding fetch_def
  by (intro quiet_rules quiet_mono[OF quiet_download_file] quiet_mono[OF quiet_download_github]
      quiet_mono[OF quiet_download_kaggle]) (simp_all add: fetchers_def)

lemma quiet_extract_step: "quiet [''extract_file''] (extract_step sys task tp ap)"
  unfolding extract_step_def Let_def by (intro quiet_rules quiet_extract_file)

lemma quiet_execute_step: "quiet [''execute_script''] (execute_step sys task tp)"
  unfolding execute_step_def by (intro quiet_rules quiet_execute_script)

lemma quiet_process_task: "quiet workers (process_task sys secrets task)"
  unfolding process_task_def
  by (intro quiet_rules quiet_mono[OF quiet_fetch] quiet_mono[OF quiet_extract_step]
      quiet_mono[OF quiet_execute_step]) (auto simp add: workers_def)

lemma quiet_process_tasks: "quiet workers (process_tasks sys secrets tasks)"
  by (induction tasks) (simp_all add: quiet_ret quiet_seq quiet_process_task)

lemma quiet_process_downloads:
  "quiet (''process_downloads'' # workers) (process_downloads sys config secrets)"
  unfolding process_downloads_def Let_def
  by (intro quiet_rules quiet_enter quiet_mono[OF quiet_process_tasks]) auto

lemma all_exist_run:
  "state_of (all_exist sys ps) s = s" "events_of (all_exist sys ps) s = []"
  by (induction ps) (simp_all add: run_simps split: sum.splits)

lemma detect_platform_run:
  "state_of (detect_platform sys) s = s" "events_of (detect_platform sys) s = []"
proof -
  have "state_of (detect_platform sys) s = s \<and> events_of (detect_platform sys) s = []"
  proof (cases "colab_import sys (world s)")
    case None
    then show ?thesis
      by (simp add: detect_platform_def state_of_def events_of_def ret_def)
  next
    case (Some e)
    have "state_of (seq (all_exist sys kaggle_dirs) (\<lambda>kaggle.
               if kaggle then ret (VStr ''kaggle'') else ret (VStr ''local''))) s = s"
      and "events_of (seq (all_exist sys kaggle_dirs) (\<lambda>kaggle.
               if kaggle then ret (VStr ''kaggle'') else ret (VStr ''local''))) s = []"
      by (simp_all add: seq_run all_exist_run ret_run split: sum.splits)
    with Some show ?thesis
      by (simp add: detect_platform_def state_of_def events_of_def throw_def)
  qed
  then show "state_of (detect_platform sys) s = s" "events_of (detect_platform sys) s = []"
    by simp_all
qed

lemma quiet_detect_platform: "quiet names (detect_platform sys)"
  by (rule quiet_prog) (simp_all add: detect_platform_run)

lemma quiet_colab_branch: "quiet names (colab_branch sys)"
  unfolding quiet_def
  by (simp add: colab_branch_def state_of_def events_of_def ret_def throw_def seq_def say_def
      split: sum.splits)

lemma quiet_kaggle_branch: "quiet names (kaggle_branch sys)"
  unfolding quiet_def
  by (simp add: kaggle_branch_def state_of_def events_of_def ret_def throw_def seq_def say_def
      split: sum.splits)

lemma quiet_warn_missing: "quiet names (warn_missing v msg)"
  by (simp add: warn_missing_def quiet_say quiet_ret)

section \<open>Programs without a clone\<close>

text \<open>
  The extraction and the execution never run \<open>git clone\<close>: their subprocesses have two or
  seven arguments, the clone has four.
\<close>

lemma clone_free_ret: "clone_free (ret x)"
  by (simp add: clone_free_def ret_run)

lemma clone_free_throw: "clone_free (throw e)"
  by (simp add: clone_free_def throw_run)

lemma clone_free_lift: "clone_free (lift r)"
  by (simp add: clone_free_def lift_run)

lemma clone_free_say: "clone_free (say msg args)"
  by (simp add: clone_free_def say_run)

lemma clone_free_enter: "clone_free (enter n args)"
  by (simp add: clone_free_def enter_run)

lemma clone_free_exists_path: "clone_free (exists_path sys p)"
  by (simp add: clone_free_def exists_path_run)

lemma clone_free_is_file_path: "clone_free (is_file_path sys p)"
  by (simp add: clone_free_def is_file_path_run)

lemma clone_free_call: "\<not> git_clone (Call c) \<Longrightarrow> clone_free (call sys c)"
  by (simp add: clone_free_def call_run)

lemma clone_free_subprocess_run: "length cmd \<noteq> 4 \<Longrightarrow> clone_free (subprocess_run sys cmd)"
  by (simp add: subprocess_run_def clone_free_call clone_free_throw)

lemma clone_free_seq: "clone_free m \<Longrightarrow> (\<And>x. clone_free (f x)) \<Longrightarrow> clone_free (seq m f)"
  by (simp add: clone_free_def seq_run split: sum.splits)

lemma clone_free_catch:
  "clone_free m \<Longrightarrow> (\<And>e. clone_free (h e)) \<Longrightarrow> clone_free (catch m handled h)"
  by (simp add: clone_free_def catch_run split: sum.splits)

lemma clone_free_if:
  "(c \<Longrightarrow> clone_free a) \<Longrightarrow> (\<not> c \<Longrightarrow> clone_free b) \<Longrightarrow> clone_free (if c then a else b)"
  by simp

lemmas clone_free_rules = clone_free_ret clone_free_throw clone_free_lift clone_free_say
  clone_free_enter clone_free_exists_path clone_free_is_file_path clone_free_seq clone_free_catch
  clone_free_if clone_free_call clone_free_subprocess_run

lemma clone_free_extract_file: "clone_free (extract_file sys a b c)"
  unfolding extract_file_def Let_def by (intro clone_free_rules) simp_all

lemma clone_free_execute_script: "clone_free (execute_script sys a)"
  unfolding execute_script_def by (intro clone_free_rules) simp_all

lemma clone_free_extract_step: "clone_free (extract_step sys task tp ap)"
  unfolding extract_step_def Let_def by (intro clone_free_rules clone_free_extract_file)

lemma clone_free_execute_step: "clone_free (execute_step sys task tp)"
  unfolding execute_step_def by (intro clone_free_rules clone_free_execute_script)

lemma clone_free_events: "clone_free m \<Longrightarrow> filter git_clone (events_of m s) = []"
  by (simp add: clone_free_def)

section \<open>The steps of a task\<close>

lemma extract_file_entries:
  "entries ''extract_file'' (events_of (extract_file sys a b c) s) = [[a, b, c]]"
  unfolding extract_file_def Let_def entries_entered
  by (simp, rule quiet_entries[where names="[]"], intro quiet_rules, simp)

lemma execute_script_entries:
  "entries ''execute_script'' (events_of (execute_script sys a) s) = [[a]]"
  unfolding execute_script_def entries_entered
  by (simp, rule quiet_entries[where names="[]"], intro quiet_rules, simp)

lemma extract_file_result:
  assumes P: "py_Path file_path = Inr path"
  shows "result_of (extract_file sys file_path extract_to remove_archieve) s =
     (case path_exists sys (world s) path of
        Inl e \<Rightarrow> Inl e
      | Inr found \<Rightarrow>
          if \<not> found then Inr ()
          else (case path_is_file sys (world s) path of Inl e \<Rightarrow> Inl e | Inr isf \<Rightarrow> Inr ()))"
proof -
  have c: "result_of (catch m any_exception (\<lambda>e. say msg [VExn e])) s' = Inr ()"
    for m :: "('w, unit) prog" and msg s'
    by (simp add: run_simps any_exception_def split: sum.splits)
  show ?thesis
  proof (cases "path_exists sys (world s) path")
    case (Inl e)
    with P show ?thesis
      by (simp add: extract_file_def seq_run(1) enter_run lift_run exists_path_run)
  next
    case found: (Inr found)
    show ?thesis
    proof (cases found)
      case False
      with P found show ?thesis
        by (simp add: extract_file_def seq_run(1) enter_run lift_run exists_path_run say_run)
    next
      case True
      show ?thesis
      proof (cases "path_is_file sys (world s) path")
        case (Inl e)
        with P found True show ?thesis
          by (simp add: extract_file_def seq_run(1,2) enter_run lift_run exists_path_run
              is_file_path_run)
      next
        case isf: (Inr isf)
        show ?thesis
        proof (cases isf)
          case False
          with P found True isf show ?thesis
            by (simp add: extract_file_def seq_run(1,2) enter_run lift_run exists_path_run
                is_file_path_run say_run)
        next
          case yes: True
          with P found True isf show ?thesis
            unfolding extract_file_def Let_def
            by (simp only: seq_run(1,2) enter_run lift_run exists_path_run is_file_path_run
                say_run c sum.case not_True_eq_False if_False if_True)
        qed
      qed
    qed
  qed
qed

lemma extract_file_None: "result_of (extract_file sys VNone a b) s = Inl TypeError"
  by (simp add: extract_file_def seq_run enter_run lift_run)

lemma fetch_no_extract: "entries ''extract_file'' (events_of (fetch sys secrets task tp) s) = []"
  by (rule quiet_entries[OF quiet_fetch]) (simp add: fetchers_def)

lemma fetch_no_execute: "entries ''execute_script'' (events_of (fetch sys secrets task tp) s) = []"
  by (rule quiet_entries[OF quiet_fetch]) (simp add: fetchers_def)

lemma extract_step_no_execute:
  "entries ''execute_script'' (events_of (extract_step sys task tp ap) s) = []"
  by (rule quiet_entries[OF quiet_extract_step]) simp

lemma execute_step_no_extract:
  "entries ''extract_file'' (events_of (execute_step sys task tp) s) = []"
  by (rule quiet_entries[OF quiet_execute_step]) simp

lemma extract_step_off:
  "py_get task ''extract'' VNone \<noteq> Inr (VBool True) \<Longrightarrow> events_of (extract_step sys task tp ap) s = []"
  by (cases "py_get task ''extract'' VNone") (simp_all add: extract_step_def run_simps)

lemma execute_step_off:
  "py_get task ''execute'' VNone \<noteq> Inr (VBool True) \<Longrightarrow> events_of (execute_step sys task tp) s = []"
  by (cases "py_get task ''execute'' VNone") (simp_all add: execute_step_def run_simps)

lemma extract_step_skip:
  "field kvs ''extract'' VNone \<noteq> VBool True \<Longrightarrow>
   extract_step sys (VDict kvs) tp ap s = (Inr tp, s, [])"
  unfolding prog_eq_iff
  by (simp add: extract_step_def py_get_field run_simps del: py_get.simps)

lemma execute_step_skip:
  "field kvs ''execute'' VNone \<noteq> VBool True \<Longrightarrow>
   execute_step sys (VDict kvs) tp s = (Inr (), s, [])"
  unfolding prog_eq_iff
  by (simp add: execute_step_def py_get_field run_simps del: py_get.simps)

lemma extract_step_entries:
  assumes "field kvs ''extract'' VNone = VBool True"
  shows "entries ''extract_file'' (events_of (extract_step sys (VDict kvs) tp ap) s) =
     [[if map_of kvs (VStr ''kaggle_competition'') \<noteq> None \<or> map_of kvs (VStr ''kaggle_dataset'') \<noteq> None
       then ap else tp,
       field kvs ''extract_to'' VNone, field kvs ''remove_compression'' (VBool False)]]"
  using assms
  by (simp add: extract_step_def py_get_field py_in_dict seq_run lift_run ret_run
      extract_file_entries Let_def del: py_in.simps py_get.simps split: sum.splits)

lemma extract_step_result:
  "result_of (extract_step sys (VDict kvs) tp ap) s = Inr tp' \<Longrightarrow>
   tp' = (if field kvs ''extract'' VNone = VBool True
            \<and> (map_of kvs (VStr ''kaggle_competition'') \<noteq> None \<or> map_of kvs (VStr ''kaggle_dataset'') \<noteq> None)
          then ap else tp)"
  by (simp add: extract_step_def py_get_field py_in_dict seq_run lift_run ret_run Let_def
      del: py_in.simps py_get.simps split: if_splits sum.splits)

lemma extract_step_run:
  assumes "field kvs ''extract'' VNone = VBool True"
  shows "result_of (extract_step sys (VDict kvs) tp ap) s =
     (let target = (if map_of kvs (VStr ''kaggle_competition'') \<noteq> None
                       \<or> map_of kvs (VStr ''kaggle_dataset'') \<noteq> None then ap else tp)
      in case result_of (extract_file sys target (field kvs ''extract_to'' VNone)
                 (field kvs ''remove_compression'' (VBool False))) s of
           Inl e \<Rightarrow> Inl e
         | Inr u \<Rightarrow> Inr target)"
proof (cases "map_of kvs (VStr ''kaggle_competition'') \<noteq> None
                       \<or> map_of kvs (VStr ''kaggle_dataset'') \<noteq> None")
  case True
  with assms show ?thesis
    by (auto simp add: extract_step_def py_get_field py_in_dict seq_run lift_run ret_run
        simp del: py_in.simps py_get.simps split: sum.splits)
next
  case False
  with assms show ?thesis
    by (auto simp add: extract_step_def py_get_field py_in_dict seq_run lift_run ret_run
        simp del: py_in.simps py_get.simps split: sum.splits)
qed

lemma execute_step_entries:
  assumes "field kvs ''execute'' VNone = VBool True"
  shows "entries ''execute_script'' (events_of (execute_step sys (VDict kvs) tp) s) = [[tp]]"
  using assms
  by (simp add: execute_step_def py_get_field seq_run lift_run execute_script_entries
      del: py_get.simps)

lemma process_task_extract_entries:
  "entries ''extract_file'' (events_of (process_task sys secrets task) s) =
     (case py_get task ''path'' (VStr ''.'') of
        Inl e \<Rightarrow> []
      | Inr tp \<Rightarrow>
         (case result_of (fetch sys secrets task tp) s of
            Inl e \<Rightarrow> []
          | Inr ap \<Rightarrow>
              entries ''extract_file''
                (events_of (extract_step sys task tp ap) (state_of (fetch sys secrets task tp) s))))"
  by (simp add: process_task_def run_simps fetch_no_extract execute_step_no_extract
      split: sum.splits)

lemma process_task_execute_entries:
  "entries ''execute_script'' (events_of (process_task sys secrets task) s) =
     (case py_get task ''path'' (VStr ''.'') of
        Inl e \<Rightarrow> []
      | Inr tp \<Rightarrow>
         (case result_of (fetch sys secrets task tp) s of
            Inl e \<Rightarrow> []
          | Inr ap \<Rightarrow>
              (case result_of (extract_step sys task tp ap) (state_of (fetch sys secrets task tp) s) of
                 Inl e \<Rightarrow> []
               | Inr tp' \<Rightarrow>
                   entries ''execute_script''
                     (events_of (execute_step sys task tp')
                        (state_of (extract_step sys task tp ap) (state_of (fetch sys secrets task tp) s))))))"
  by (simp add: process_task_def run_simps fetch_no_execute extract_step_no_execute
      split: sum.splits)

lemma download_kaggle_type_error:
  assumes "\<not> is_arg name \<or> \<not> is_arg target_path"
  shows "result_of (download_kaggle sys name target_path rt) s = Inl TypeError
         \<or> result_of (download_kaggle sys name target_path rt) s = Inl UnboundLocalError"
  using assms
  by (auto simp add: download_kaggle_def subprocess_run_def run_simps called_process_error_def)

lemma download_kaggle_competition:
  "result_of (download_kaggle sys (VStr n) (VStr p) ''competition_files'') s =
     (case fst (perform sys (world s) (Subprocess_run
             [VStr ''kaggle'', VStr ''competitions'', VStr ''download'', VStr ''-c'',
              VStr n, VStr ''-p'', VStr p])) of
        None \<Rightarrow> Inr ()
      | Some e \<Rightarrow> if e = CalledProcessError then Inr () else Inl e)"
  by (simp add: download_kaggle_def subprocess_run_def run_simps called_process_error_def
      split: option.splits)

lemma download_kaggle_dataset:
  "result_of (download_kaggle sys (VStr n) (VStr p) ''dataset'') s =
     (case fst (perform sys (world s) (Subprocess_run
             [VStr ''kaggle'', VStr ''datasets'', VStr ''download'', VStr ''-d'',
              VStr n, VStr ''-p'', VStr p])) of
        None \<Rightarrow> Inr ()
      | Some e \<Rightarrow> if e = CalledProcessError then Inr () else Inl e)"
  by (simp add: download_kaggle_def subprocess_run_def run_simps called_process_error_def
      split: option.splits)

lemma download_file_returns: "result_of (download_file sys url target_path) s = Inr ()"
  by (simp add: download_file_def run_simps any_exception_def split: sum.splits)

lemma fetch_url:
  "map_of kvs (VStr ''url'') = Some url \<Longrightarrow>
   result_of (fetch sys secrets (VDict kvs) tp) s = Inr VNone"
  by (simp add: fetch_def py_in_dict seq_run lift_run ret_run download_file_returns
      del: py_in.simps)

lemma fetch_no_source:
  assumes "map_of kvs (VStr ''url'') = None" "map_of kvs (VStr ''github_file'') = None"
    "map_of kvs (VStr ''github_repo'') = None" "map_of kvs (VStr ''kaggle_competition'') = None"
    "map_of kvs (VStr ''kaggle_dataset'') = None"
  shows "fetch sys secrets (VDict kvs) tp s = (Inr VNone, s, [])"
  unfolding prog_eq_iff using assms
  by (simp add: fetch_def py_in_dict run_simps del: py_in.simps)

lemma fetch_competition:
  assumes "map_of kvs (VStr ''url'') = None" "map_of kvs (VStr ''github_file'') = None"
    "map_of kvs (VStr ''github_repo'') = None" "map_of kvs (VStr ''kaggle_competition'') = Some (VStr n)"
  shows "result_of (fetch sys secrets (VDict kvs) (VStr p)) s =
     (case fst (perform sys (world s) (Subprocess_run
               [VStr ''kaggle'', VStr ''competitions'', VStr ''download'', VStr ''-c'',
                VStr n, VStr ''-p'', VStr p])) of
        None \<Rightarrow> Inr (VPath (path_join (parse_path p) (n @ ''.zip'')))
      | Some e \<Rightarrow> if e = CalledProcessError
                  then Inr (VPath (path_join (parse_path p) (n @ ''.zip''))) else Inl e)"
  using assms
  by (simp add: fetch_def py_in_dict seq_run lift_run ret_run
      download_kaggle_competition
      del: py_in.simps split: option.splits)

lemma fetch_dataset:
  assumes "map_of kvs (VStr ''url'') = None" "map_of kvs (VStr ''github_file'') = None"
    "map_of kvs (VStr ''github_repo'') = None" "map_of kvs (VStr ''kaggle_competition'') = None"
    "map_of kvs (VStr ''kaggle_dataset'') = Some (VStr n)"
  shows "result_of (fetch sys secrets (VDict kvs) (VStr p)) s =
     (case fst (perform sys (world s) (Subprocess_run
               [VStr ''kaggle'', VStr ''datasets'', VStr ''download'', VStr ''-d'',
                VStr n, VStr ''-p'', VStr p])) of
        None \<Rightarrow> Inr (VPath (path_join (parse_path p) (last (split_sep CHR ''/'' n) @ ''.zip'')))
      | Some e \<Rightarrow> if e = CalledProcessError
                  then Inr (VPath (path_join (parse_path p) (last (split_sep CHR ''/'' n) @ ''.zip'')))
                  else Inl e)"
  using assms
  by (simp add: fetch_def py_in_dict seq_run lift_run ret_run
      download_kaggle_dataset
      del: py_in.simps split: option.splits)

lemma fetch_other_source:
  assumes "map_of kvs (VStr ''url'') \<noteq> None \<or> map_of kvs (VStr ''github_file'') \<noteq> None
           \<or> map_of kvs (VStr ''github_repo'') \<noteq> None"
    and "result_of (fetch sys secrets (VDict kvs) tp) s = Inr ap"
  shows "ap = VNone"
  using assms
  by (auto simp add: fetch_def py_in_dict seq_run lift_run ret_run
      simp del: py_in.simps split: sum.splits if_splits)

text \<open>In the sample world \<open>exists\<close> and \<open>is_file\<close> always answer, so \<open>extract_file\<close> returns.\<close>

lemma sample_extract_file:
  "py_Path fp = Inr path \<Longrightarrow> result_of (extract_file (sample_system outcome) fp a b) s = Inr ()"
  by (simp add: extract_file_result sample_system_def)

section \<open>The environment through setup\<close>

lemma setup_envkit_loaded:
  "load_config sys (world s) yaml_path = Inr config \<Longrightarrow>
   setup_envkit sys yaml_path s =
     seq (say ''[EnvKit] Info: Config file is {}'' [VStr yaml_path]) (\<lambda>_. configure sys config) s"
  by (simp add: setup_envkit_def)

lemma setup_envkit_run:
  assumes "load_config sys (world s) yaml_path = Inr config"
  shows "result_of (setup_envkit sys yaml_path) s =
           result_of (seq (say ''[EnvKit] Info: Config file is {}'' [VStr yaml_path])
                        (\<lambda>_. configure sys config)) s"
    and "state_of (setup_envkit sys yaml_path) s =
           state_of (seq (say ''[EnvKit] Info: Config file is {}'' [VStr yaml_path])
                        (\<lambda>_. configure sys config)) s"
    and "events_of (setup_envkit sys yaml_path) s =
           events_of (seq (say ''[EnvKit] Info: Config file is {}'' [VStr yaml_path])
                        (\<lambda>_. configure sys config)) s"
  using setup_envkit_loaded [OF assms] by (simp_all add: result_of_def state_of_def events_of_def)

lemma local_branch_run:
  "environ (state_of (local_branch sys) s) = snd (load_dotenv sys (world s) (environ s))"
  "list_all (inner names) (events_of (local_branch sys) s)"
  by (simp_all add: local_branch_def state_of_def events_of_def ret_def seq_def say_def
      split: prod.splits option.splits)

lemma colab_result:
  "colab_userdata sys (world s) = Inr store \<Longrightarrow>
   result_of (colab_branch sys) s = Inr (store_secrets store)"
  by (simp add: colab_branch_def result_of_def ret_def)

lemma local_result:
  "load_dotenv sys (world s) (environ s) = (None, env) \<Longrightarrow>
   result_of (local_branch sys) s =
     Inr \<lparr>GITHUB_TOKEN = env ''GITHUB_TOKEN'', KAGGLE_USERNAME = env ''KAGGLE_USERNAME'',
          KAGGLE_KEY = env ''KAGGLE_KEY''\<rparr>"
  by (simp add: local_branch_def result_of_def ret_def)

lemma get_secrets_run:
  "environ (state_of (get_secrets sys platform) s) =
     (if platform = VStr ''colab'' \<or> platform = VStr ''kaggle'' then environ s
      else snd (load_dotenv sys (world s) (environ s)))"
  "setenvs (events_of (get_secrets sys platform) s) = []"
proof -
  let ?branch = "if platform = VStr ''colab'' then colab_branch sys
          else if platform = VStr ''kaggle'' then kaggle_branch sys
          else local_branch sys"
  have tail: "quiet [] (seq (warn_missing (GITHUB_TOKEN secrets) a) (\<lambda>_.
     seq (warn_missing (KAGGLE_USERNAME secrets) b) (\<lambda>_.
     seq (warn_missing (KAGGLE_KEY secrets) c) (\<lambda>_.
     ret secrets))))" for secrets :: secrets and a b c
    by (intro quiet_rules quiet_warn_missing)
  have b_env: "environ (state_of ?branch s) =
     (if platform = VStr ''colab'' \<or> platform = VStr ''kaggle'' then environ s
      else snd (load_dotenv sys (world s) (environ s)))"
    by (simp add: quiet_environ[OF quiet_colab_branch] quiet_environ[OF quiet_kaggle_branch]
        local_branch_run(1))
  have b_ev: "setenvs (events_of ?branch s) = []"
    by (simp add: quiet_setenvs[OF quiet_colab_branch] quiet_setenvs[OF quiet_kaggle_branch]
        inner_setenvs[OF local_branch_run(2)])
  show "environ (state_of (get_secrets sys platform) s) =
     (if platform = VStr ''colab'' \<or> platform = VStr ''kaggle'' then environ s
      else snd (load_dotenv sys (world s) (environ s)))"
    unfolding get_secrets_def seq_enter_run seq_say_run seq_quiet_tail(1)[OF tail]
    by (rule b_env)
  show "setenvs (events_of (get_secrets sys platform) s) = []"
    unfolding get_secrets_def seq_enter_run seq_say_run setenvs.simps seq_quiet_tail(2)[OF tail]
    by (rule b_ev)
qed

lemma set_kaggle_credentials_run:
  "environ (state_of (set_kaggle_credentials sec) s) =
     (if opt_truthy (KAGGLE_USERNAME sec) \<and> opt_truthy (KAGGLE_KEY sec)
      then (environ s)(''KAGGLE_USERNAME'' \<mapsto> the (KAGGLE_USERNAME sec),
                       ''KAGGLE_KEY'' \<mapsto> the (KAGGLE_KEY sec))
      else environ s)"
  "setenvs (events_of (set_kaggle_credentials sec) s) =
     (if opt_truthy (KAGGLE_USERNAME sec) \<and> opt_truthy (KAGGLE_KEY sec)
      then [(''KAGGLE_USERNAME'', the (KAGGLE_USERNAME sec)), (''KAGGLE_KEY'', the (KAGGLE_KEY sec))]
      else [])"
  "result_of (set_kaggle_credentials sec) s = Inr ()"
  by (simp_all add: set_kaggle_credentials_def seq_def say_def setenv_def state_of_def
      events_of_def result_of_def)

lemma configure_environment:
  assumes "py_get config ''platform'' (VStr ''auto'') = Inr p0" and "p0 \<in> set platforms"
    and "result_of (if p0 = VStr ''auto'' then detect_platform sys else ret p0) s = Inr platform"
    and "result_of (get_secrets sys platform) s = Inr sec"
  shows "setenvs (events_of (configure sys config) s) =
           (if opt_truthy (KAGGLE_USERNAME sec) \<and> opt_truthy (KAGGLE_KEY sec)
            then [(''KAGGLE_USERNAME'', the (KAGGLE_USERNAME sec)),
                  (''KAGGLE_KEY'', the (KAGGLE_KEY sec))]
            else [])"
    and "environ (state_of (configure sys config) s) =
           (let env = (if platform = VStr ''colab'' \<or> platform = VStr ''kaggle'' then environ s
                       else snd (load_dotenv sys (world s) (environ s)))
            in if opt_truthy (KAGGLE_USERNAME sec) \<and> opt_truthy (KAGGLE_KEY sec)
               then env(''KAGGLE_USERNAME'' \<mapsto> the (KAGGLE_USERNAME sec),
                        ''KAGGLE_KEY'' \<mapsto> the (KAGGLE_KEY sec))
               else env)"
proof -
  let ?resolve = "if p0 = VStr ''auto'' then detect_platform sys else ret p0"
  have rs: "state_of ?resolve s = s"
    by (simp add: detect_platform_run ret_run)
  have re: "events_of ?resolve s = []"
    by (simp add: detect_platform_run ret_run)
  have tail: "quiet (''install_packages'' # ''process_downloads'' # workers)
     (seq (install_packages sys config) (\<lambda>_.
       seq (process_downloads sys config sec) (\<lambda>_. ret RTrue)))"
    by (intro quiet_rules quiet_mono[OF quiet_install_packages]
        quiet_mono[OF quiet_process_downloads]) auto
  let ?s2 = "state_of (get_secrets sys platform) s"
  have c_env: "environ (state_of (seq (set_kaggle_credentials sec) (\<lambda>_.
       seq (install_packages sys config) (\<lambda>_.
       seq (process_downloads sys config sec) (\<lambda>_. ret RTrue)))) ?s2) =
       environ (state_of (set_kaggle_credentials sec) ?s2)"
    by (rule seq_quiet_tail(1)) (rule tail)
  have c_ev: "setenvs (events_of (seq (set_kaggle_credentials sec) (\<lambda>_.
       seq (install_packages sys config) (\<lambda>_.
       seq (process_downloads sys config sec) (\<lambda>_. ret RTrue)))) ?s2) =
       setenvs (events_of (set_kaggle_credentials sec) ?s2)"
    by (rule seq_quiet_tail(2)) (rule tail)
  show "setenvs (events_of (configure sys config) s) =
           (if opt_truthy (KAGGLE_USERNAME sec) \<and> opt_truthy (KAGGLE_KEY sec)
            then [(''KAGGLE_USERNAME'', the (KAGGLE_USERNAME sec)),
                  (''KAGGLE_KEY'', the (KAGGLE_KEY sec))]
            else [])"
    using assms(1,2)
    by (simp add: configure_def seq_run(3)[of "lift _"] lift_run
        seq_run(3)[of ?resolve] assms(3) rs re seq_say_run
        seq_run(3)[of "get_secrets sys platform"] assms(4) get_secrets_run(2)
        c_ev set_kaggle_credentials_run(2))
  show "environ (state_of (configure sys config) s) =
           (let env = (if platform = VStr ''colab'' \<or> platform = VStr ''kaggle'' then environ s
                       else snd (load_dotenv sys (world s) (environ s)))
            in if opt_truthy (KAGGLE_USERNAME sec) \<and> opt_truthy (KAGGLE_KEY sec)
               then env(''KAGGLE_USERNAME'' \<mapsto> the (KAGGLE_USERNAME sec),
                        ''KAGGLE_KEY'' \<mapsto> the (KAGGLE_KEY sec))
               else env)"
    using assms(1,2)
    by (simp add: configure_def seq_run(2)[of "lift _"] lift_run
        seq_run(2)[of ?resolve] assms(3) rs seq_say_run
        seq_run(2)[of "get_secrets sys platform"] assms(4) get_secrets_run(1)
        c_env set_kaggle_credentials_run(1) Let_def)
qed

lemmas sample_simps = sample_system_def sample_machine_def all_succeed_def field_def
  parse_path_def splitroot_def path_join_def

section \<open>The claims\<close>

text \<open>
  C1. For every Kaggle task (no \<open>url\<close>, \<open>github_file\<close> or \<open>github_repo\<close> key; name
  and path strings) whose \<open>extract\<close> flag is \<open>True\<close>: unless the Kaggle command raises
  something other than \<open>CalledProcessError\<close>, \<open>extract_file\<close> is entered exactly once, and
  its first argument is the path object \<open>Path(path) / (name + .zip)\<close> for a competition and
  \<open>Path(path) / (slug + .zip)\<close> for a dataset, \<open>slug\<close> being the text after the last \<open>/\<close> of
  the name (the whole name when it has none). For a dataset, and for a competition whose
  name does not begin with \<open>/\<close>, this path is never the raw path, and for a path other than
  the empty string, \<open>/\<close> and \<open>//\<close> it is the path that the text \<open><path>/<name>.zip\<close>
  (\<open><path>/<slug>.zip\<close> for a dataset) denotes. A competition name that begins with \<open>/\<close>
  gives the path \<open><name>.zip\<close>, without the task's path.
\<close>

theorem kaggle_archive_extracted:
  assumes "map_of kvs (VStr ''url'') = None" "map_of kvs (VStr ''github_file'') = None"
    "map_of kvs (VStr ''github_repo'') = None"
    and "field kvs ''path'' (VStr ''.'') = VStr p"
    and "field kvs ''extract'' VNone = VBool True"
  shows
    "(map_of kvs (VStr ''kaggle_competition'') = Some (VStr n) \<longrightarrow>
        entries ''extract_file'' (events_of (process_task sys secrets (VDict kvs)) s) =
          (if fst (perform sys (world s) (Subprocess_run
                 [VStr ''kaggle'', VStr ''competitions'', VStr ''download'', VStr ''-c'',
                  VStr n, VStr ''-p'', VStr p])) \<in> {None, Some CalledProcessError}
           then [[VPath (path_join (parse_path p) (n @ ''.zip'')),
                  field kvs ''extract_to'' VNone, field kvs ''remove_compression'' (VBool False)]]
           else [])
        \<and> (take 1 n \<noteq> ''/'' \<longrightarrow> path_join (parse_path p) (n @ ''.zip'') \<noteq> parse_path p)
        \<and> (take 1 n \<noteq> ''/'' \<and> p \<notin> {[], ''/'', ''//''} \<longrightarrow>
             path_join (parse_path p) (n @ ''.zip'') = parse_path (p @ ''/'' @ n @ ''.zip''))
        \<and> (take 1 n = ''/'' \<longrightarrow> path_join (parse_path p) (n @ ''.zip'') = parse_path (n @ ''.zip'')))
   \<and> (map_of kvs (VStr ''kaggle_competition'') = None
        \<and> map_of kvs (VStr ''kaggle_dataset'') = Some (VStr n) \<longrightarrow>
        entries ''extract_file'' (events_of (process_task sys secrets (VDict kvs)) s) =
          (if fst (perform sys (world s) (Subprocess_run
                 [VStr ''kaggle'', VStr ''datasets'', VStr ''download'', VStr ''-d'',
                  VStr n, VStr ''-p'', VStr p])) \<in> {None, Some CalledProcessError}
           then [[VPath (path_join (parse_path p) (last (split_sep CHR ''/'' n) @ ''.zip'')),
                  field kvs ''extract_to'' VNone, field kvs ''remove_compression'' (VBool False)]]
           else [])
        \<and> path_join (parse_path p) (last (split_sep CHR ''/'' n) @ ''.zip'') \<noteq> parse_path p
        \<and> (p \<notin> {[], ''/'', ''//''} \<longrightarrow>
             path_join (parse_path p) (last (split_sep CHR ''/'' n) @ ''.zip'') =
               parse_path (p @ ''/'' @ last (split_sep CHR ''/'' n) @ ''.zip''))
        \<and> (\<forall>owner slug. n = owner @ ''/'' @ slug \<and> CHR ''/'' \<notin> set slug \<longrightarrow>
               last (split_sep CHR ''/'' n) = slug))"
proof -
  have comp: "entries ''extract_file'' (events_of (process_task sys secrets (VDict kvs)) s) =
          (if fst (perform sys (world s) (Subprocess_run
                 [VStr ''kaggle'', VStr ''competitions'', VStr ''download'', VStr ''-c'',
                  VStr n, VStr ''-p'', VStr p])) \<in> {None, Some CalledProcessError}
           then [[VPath (path_join (parse_path p) (n @ ''.zip'')),
                  field kvs ''extract_to'' VNone, field kvs ''remove_compression'' (VBool False)]]
           else [])"
    if c: "map_of kvs (VStr ''kaggle_competition'') = Some (VStr n)"
    using assms(4,5) c
    by (simp add: process_task_extract_entries py_get_field fetch_competition[OF assms(1-3) c]
        extract_step_entries del: py_get.simps split: option.splits)
  have data: "entries ''extract_file'' (events_of (process_task sys secrets (VDict kvs)) s) =
          (if fst (perform sys (world s) (Subprocess_run
                 [VStr ''kaggle'', VStr ''datasets'', VStr ''download'', VStr ''-d'',
                  VStr n, VStr ''-p'', VStr p])) \<in> {None, Some CalledProcessError}
           then [[VPath (path_join (parse_path p) (last (split_sep CHR ''/'' n) @ ''.zip'')),
                  field kvs ''extract_to'' VNone, field kvs ''remove_compression'' (VBool False)]]
           else [])"
    if c: "map_of kvs (VStr ''kaggle_competition'') = None"
      and d: "map_of kvs (VStr ''kaggle_dataset'') = Some (VStr n)"
    using assms(4,5) d
    by (simp add: process_task_extract_entries py_get_field fetch_dataset[OF assms(1-3) c d]
        extract_step_entries del: py_get.simps split: option.splits)
  have t1: "path_join (parse_path p) (n @ ''.zip'') = parse_path (p @ ''/'' @ n @ ''.zip'')"
    if "take 1 n \<noteq> ''/''" "p \<notin> {[], ''/'', ''//''}"
  proof -
    from that(1) have "take 1 (n @ ''.zip'') \<noteq> ''/''" by (cases n) auto
    with that(2) show ?thesis by (intro path_join_as_text) auto
  qed
  have t2: "path_join (parse_path p) (n @ ''.zip'') = parse_path (n @ ''.zip'')"
    if "take 1 n = ''/''"
  proof -
    from that have "take 1 (n @ ''.zip'') = ''/''" by (cases n) auto
    then show ?thesis by (rule path_join_rooted)
  qed
  have t3: "path_join (parse_path p) (last (split_sep CHR ''/'' n) @ ''.zip'') =
               parse_path (p @ ''/'' @ last (split_sep CHR ''/'' n) @ ''.zip'')"
    if "p \<notin> {[], ''/'', ''//''}"
  proof -
    have "take 1 (last (split_sep CHR ''/'' n) @ ''.zip'') \<noteq> ''/''"
      using last_split_sep_no_sep[of "CHR ''/''" n]
      by (cases "last (split_sep CHR ''/'' n)") auto
    with that show ?thesis by (intro path_join_as_text) auto
  qed
  have t4: "last (split_sep CHR ''/'' n) = slug"
    if "n = owner @ ''/'' @ slug" "CHR ''/'' \<notin> set slug" for owner slug
    using that by (simp add: last_split_sep)
  have t5: "path_join (parse_path p) (n @ ''.zip'') \<noteq> parse_path p" if "take 1 n \<noteq> ''/''"
  proof -
    from that have "take 1 (n @ ''.zip'') \<noteq> ''/''" by (cases n) auto
    then show ?thesis by (rule path_join_archive)
  qed
  have t6: "path_join (parse_path p) (last (split_sep CHR ''/'' n) @ ''.zip'') \<noteq> parse_path p"
  proof -
    have "take 1 (last (split_sep CHR ''/'' n) @ ''.zip'') \<noteq> ''/''"
      using last_split_sep_no_sep[of "CHR ''/''" n]
      by (cases "last (split_sep CHR ''/'' n)") auto
    then show ?thesis by (rule path_join_archive)
  qed
  from comp data t1 t2 t3 t4 t5 t6 show ?thesis by blast
qed

text \<open>
  The dataset \<open>alice/titanic\<close> downloaded into \<open>/data\<close>: the extraction is given
  \<open>/data/titanic.zip\<close>. The competition \<open>house-prices\<close> with no path: the extraction is
  given \<open>house-prices.zip\<close>, which is the path \<open>./house-prices.zip\<close>.
\<close>

theorem kaggle_archive_extracted_witness:
  "map_of titanic_dataset (VStr ''url'') = None
   \<and> map_of titanic_dataset (VStr ''github_file'') = None
   \<and> map_of titanic_dataset (VStr ''github_repo'') = None
   \<and> map_of titanic_dataset (VStr ''kaggle_competition'') = None
   \<and> map_of titanic_dataset (VStr ''kaggle_dataset'') = Some (VStr ''alice/titanic'')
   \<and> field titanic_dataset ''path'' (VStr ''.'') = VStr ''/data''
   \<and> field titanic_dataset ''extract'' VNone = VBool True
   \<and> entries ''extract_file''
        (events_of (process_task (sample_system all_succeed) no_secrets (VDict titanic_dataset))
           (sample_machine [])) =
      [[VPath (PPath ''/'' [''data'', ''titanic.zip'']), VNone, VBool False]]
   \<and> parse_path ''/data/titanic.zip'' = PPath ''/'' [''data'', ''titanic.zip'']
   \<and> map_of house_prices (VStr ''url'') = None
   \<and> map_of house_prices (VStr ''github_file'') = None
   \<and> map_of house_prices (VStr ''github_repo'') = None
   \<and> map_of house_prices (VStr ''kaggle_competition'') = Some (VStr ''house-prices'')
   \<and> field house_prices ''path'' (VStr ''.'') = VStr ''.''
   \<and> field house_prices ''extract'' VNone = VBool True
   \<and> entries ''extract_file''
        (events_of (process_task (sample_system all_succeed) no_secrets (VDict house_prices))
           (sample_machine [])) =
      [[VPath (PPath [] [''house-prices.zip'']), VNone, VBool False]]
   \<and> parse_path ''./house-prices.zip'' = PPath [] [''house-prices.zip'']"
  using kaggle_archive_extracted [of titanic_dataset "''/data''" "''alice/titanic''"
      "sample_system all_succeed" no_secrets "sample_machine []"]
    kaggle_archive_extracted [of house_prices "''.''" "''house-prices''"
      "sample_system all_succeed" no_secrets "sample_machine []"]
  by (simp add: titanic_dataset_def house_prices_def sample_simps)

text \<open>
  The competition name \<open>/data/x\<close> with the path \<open>/data/x.zip\<close>: the extraction is given
  \<open>/data/x.zip\<close>, which is the raw path itself, and not the path that
  \<open><path>/<name>.zip\<close> denotes.
\<close>

theorem kaggle_archive_extracted_counterexample:
  "map_of rooted_competition (VStr ''kaggle_competition'') = Some (VStr ''/data/x'')
   \<and> field rooted_competition ''path'' (VStr ''.'') = VStr ''/data/x.zip''
   \<and> field rooted_competition ''extract'' VNone = VBool True
   \<and> entries ''extract_file''
     (events_of (process_task (sample_system all_succeed) no_secrets (VDict rooted_competition))
        (sample_machine [])) =
     [[VPath (PPath ''/'' [''data'', ''x.zip'']), VNone, VBool False]]
   \<and> parse_path ''/data/x.zip'' = PPath ''/'' [''data'', ''x.zip'']
   \<and> parse_path (''/data/x.zip'' @ ''/'' @ ''/data/x'' @ ''.zip'') =
       PPath ''/'' [''data'', ''x.zip'', ''data'', ''x.zip'']
   \<and> PPath ''/'' [''data'', ''x.zip''] \<noteq> PPath ''/'' [''data'', ''x.zip'', ''data'', ''x.zip'']"
proof -
  have "result_of (fetch (sample_system all_succeed) no_secrets (VDict rooted_competition)
          (VStr ''/data/x.zip'')) (sample_machine []) = Inr (VPath (PPath ''/'' [''data'', ''x.zip'']))"
    by (subst fetch_competition[where n="''/data/x''"])
       (simp_all add: rooted_competition_def sample_simps)
  moreover have "field rooted_competition ''path'' (VStr ''.'') = VStr ''/data/x.zip''"
    and "field rooted_competition ''extract'' VNone = VBool True"
    and "field rooted_competition ''extract_to'' VNone = VNone"
    and "field rooted_competition ''remove_compression'' (VBool False) = VBool False"
    and "map_of rooted_competition (VStr ''kaggle_competition'') = Some (VStr ''/data/x'')"
    by (simp_all add: rooted_competition_def field_def)
  moreover have "parse_path ''/data/x.zip'' = PPath ''/'' [''data'', ''x.zip'']"
    and "parse_path (''/data/x.zip'' @ ''/'' @ ''/data/x'' @ ''.zip'') =
       PPath ''/'' [''data'', ''x.zip'', ''data'', ''x.zip'']"
    by (simp_all add: parse_path_def splitroot_def)
  ultimately show ?thesis
    by (simp add: process_task_extract_entries py_get_field extract_step_entries del: py_get.simps)
qed

text \<open>
  C2, as amended. For every task (a mapping) whose \<open>execute\<close> flag is \<open>True\<close> and whose
  download and extraction steps raise no exception that leaves them: \<open>execute_script\<close> is
  entered exactly once, on the path the extraction step leaves in \<open>target_path\<close>. That is
  the implied archive path when the task is Kaggle-sourced and its \<open>extract\<close> flag is
  \<open>True\<close>, and the task's original path in every other case: for url and github tasks,
  and for a Kaggle task whose \<open>extract\<close> flag is not \<open>True\<close>. The implied archive path of a
  Kaggle task with string name and path is the one of C1.
\<close>

theorem execute_target:
  assumes "field kvs ''execute'' VNone = VBool True"
    and "result_of (fetch sys secrets (VDict kvs) (field kvs ''path'' (VStr ''.''))) s = Inr ap"
    and "result_of (extract_step sys (VDict kvs) (field kvs ''path'' (VStr ''.'')) ap)
           (state_of (fetch sys secrets (VDict kvs) (field kvs ''path'' (VStr ''.''))) s) = Inr tp"
  shows
    "entries ''execute_script'' (events_of (process_task sys secrets (VDict kvs)) s) = [[tp]]
     \<and> tp = (if field kvs ''extract'' VNone = VBool True
               \<and> map_of kvs (VStr ''url'') = None \<and> map_of kvs (VStr ''github_file'') = None
               \<and> map_of kvs (VStr ''github_repo'') = None
               \<and> (map_of kvs (VStr ''kaggle_competition'') \<noteq> None
                    \<or> map_of kvs (VStr ''kaggle_dataset'') \<noteq> None)
             then ap else field kvs ''path'' (VStr ''.''))
     \<and> (map_of kvs (VStr ''url'') = None \<and> map_of kvs (VStr ''github_file'') = None
          \<and> map_of kvs (VStr ''github_repo'') = None
          \<and> map_of kvs (VStr ''kaggle_competition'') = Some (VStr n)
          \<and> field kvs ''path'' (VStr ''.'') = VStr p \<longrightarrow>
          ap = VPath (path_join (parse_path p) (n @ ''.zip'')))
     \<and> (map_of kvs (VStr ''url'') = None \<and> map_of kvs (VStr ''github_file'') = None
          \<and> map_of kvs (VStr ''github_repo'') = None
          \<and> map_of kvs (VStr ''kaggle_competition'') = None
          \<and> map_of kvs (VStr ''kaggle_dataset'') = Some (VStr n)
          \<and> field kvs ''path'' (VStr ''.'') = VStr p \<longrightarrow>
          ap = VPath (path_join (parse_path p) (last (split_sep CHR ''/'' n) @ ''.zip'')))"
proof -
  let ?path = "field kvs ''path'' (VStr ''.'')"
  let ?s1 = "state_of (fetch sys secrets (VDict kvs) ?path) s"
  have A: "entries ''execute_script'' (events_of (process_task sys secrets (VDict kvs)) s) = [[tp]]"
    using assms
    by (simp add: process_task_execute_entries py_get_field execute_step_entries del: py_get.simps)
  note r = extract_step_result[OF assms(3)]
  have B: "tp = ?path"
    if k: "map_of kvs (VStr ''url'') \<noteq> None \<or> map_of kvs (VStr ''github_file'') \<noteq> None
           \<or> map_of kvs (VStr ''github_repo'') \<noteq> None"
  proof (rule ccontr)
    assume "tp \<noteq> ?path"
    with r have x: "field kvs ''extract'' VNone = VBool True"
      and y: "map_of kvs (VStr ''kaggle_competition'') \<noteq> None \<or> map_of kvs (VStr ''kaggle_dataset'') \<noteq> None"
      by (auto split: if_splits)
    from fetch_other_source[OF k assms(2)] have "ap = VNone" .
    with x y have "result_of (extract_step sys (VDict kvs) ?path ap) ?s1 = Inl TypeError"
      by (auto simp add: extract_step_def py_get_field py_in_dict seq_run lift_run ret_run
          extract_file_None simp del: py_in.simps py_get.simps)
    with assms(3) show False by simp
  qed
  have C: "ap = VPath (path_join (parse_path p) (n @ ''.zip''))"
    if "map_of kvs (VStr ''url'') = None" "map_of kvs (VStr ''github_file'') = None"
       "map_of kvs (VStr ''github_repo'') = None"
       "map_of kvs (VStr ''kaggle_competition'') = Some (VStr n)" "?path = VStr p"
    using assms(2) that(5) fetch_competition[OF that(1-4), of sys secrets p s]
    by (auto split: option.splits if_splits)
  have D: "ap = VPath (path_join (parse_path p) (last (split_sep CHR ''/'' n) @ ''.zip''))"
    if "map_of kvs (VStr ''url'') = None" "map_of kvs (VStr ''github_file'') = None"
       "map_of kvs (VStr ''github_repo'') = None" "map_of kvs (VStr ''kaggle_competition'') = None"
       "map_of kvs (VStr ''kaggle_dataset'') = Some (VStr n)" "?path = VStr p"
    using assms(2) that(6) fetch_dataset[OF that(1-5), of sys secrets p s]
    by (auto split: option.splits if_splits)
  from A r B C D show ?thesis by (auto split: if_splits)
qed

text \<open>
  The dataset \<open>alice/titanic\<close> with both flags \<open>True\<close>, the archive being there: the script
  runner is given \<open>/data/titanic.zip\<close>. The script \<open>run.py\<close> fetched from a URL: the script
  runner is given \<open>run.py\<close>.
\<close>

theorem execute_target_witness:
  "field titanic_dataset ''execute'' VNone = VBool True
   \<and> result_of (fetch (sample_system all_succeed) no_secrets (VDict titanic_dataset)
         (field titanic_dataset ''path'' (VStr ''.'')))
         (sample_machine [PPath ''/'' [''data'', ''titanic.zip'']]) =
       Inr (VPath (PPath ''/'' [''data'', ''titanic.zip'']))
   \<and> result_of (extract_step (sample_system all_succeed) (VDict titanic_dataset)
         (field titanic_dataset ''path'' (VStr ''.'')) (VPath (PPath ''/'' [''data'', ''titanic.zip''])))
         (state_of (fetch (sample_system all_succeed) no_secrets (VDict titanic_dataset)
            (field titanic_dataset ''path'' (VStr ''.'')))
            (sample_machine [PPath ''/'' [''data'', ''titanic.zip'']])) =
       Inr (VPath (PPath ''/'' [''data'', ''titanic.zip'']))
   \<and> entries ''execute_script''
        (events_of (process_task (sample_system all_succeed) no_secrets (VDict titanic_dataset))
           (sample_machine [PPath ''/'' [''data'', ''titanic.zip'']])) =
      [[VPath (PPath ''/'' [''data'', ''titanic.zip''])]]
   \<and> field remote_script ''execute'' VNone = VBool True
   \<and> result_of (fetch (sample_system all_succeed) no_secrets (VDict remote_script)
         (field remote_script ''path'' (VStr ''.''))) (sample_machine []) = Inr VNone
   \<and> result_of (extract_step (sample_system all_succeed) (VDict remote_script)
         (field remote_script ''path'' (VStr ''.'')) VNone)
         (state_of (fetch (sample_system all_succeed) no_secrets (VDict remote_script)
            (field remote_script ''path'' (VStr ''.''))) (sample_machine [])) = Inr (VStr ''run.py'')
   \<and> entries ''execute_script''
        (events_of (process_task (sample_system all_succeed) no_secrets (VDict remote_script))
           (sample_machine [])) = [[VStr ''run.py'']]"
proof -
  let ?s = "sample_machine [PPath ''/'' [''data'', ''titanic.zip'']]"
  let ?zip = "VPath (PPath ''/'' [''data'', ''titanic.zip''])"
  have p: "field titanic_dataset ''path'' (VStr ''.'') = VStr ''/data''"
    and x: "field titanic_dataset ''execute'' VNone = VBool True"
    and e: "field titanic_dataset ''extract'' VNone = VBool True"
    and d: "map_of titanic_dataset (VStr ''kaggle_dataset'') \<noteq> None"
    by (simp_all add: titanic_dataset_def field_def)
  have f: "result_of (fetch (sample_system all_succeed) no_secrets (VDict titanic_dataset)
         (field titanic_dataset ''path'' (VStr ''.''))) ?s = Inr ?zip"
    unfolding p
    by (subst fetch_dataset[where n="''alice/titanic''"])
       (simp_all add: titanic_dataset_def sample_simps)
  have xf: "result_of (extract_file (sample_system all_succeed) ?zip a b) t = Inr ()" for a b t
    by (rule sample_extract_file) simp
  have r: "result_of (extract_step (sample_system all_succeed) (VDict titanic_dataset)
         (field titanic_dataset ''path'' (VStr ''.'')) ?zip)
         (state_of (fetch (sample_system all_succeed) no_secrets (VDict titanic_dataset)
            (field titanic_dataset ''path'' (VStr ''.''))) ?s) = Inr ?zip"
    using e d
    by (simp add: extract_step_def py_get_field py_in_dict seq_run lift_run ret_run Let_def
        xf del: py_in.simps py_get.simps)
  have p2: "field remote_script ''path'' (VStr ''.'') = VStr ''run.py''"
    and x2: "field remote_script ''execute'' VNone = VBool True"
    and e2: "field remote_script ''extract'' VNone \<noteq> VBool True"
    and u2: "map_of remote_script (VStr ''url'') = Some (VStr ''https://x/run.py'')"
    by (simp_all add: remote_script_def field_def)
  have f2: "result_of (fetch (sample_system all_succeed) no_secrets (VDict remote_script)
         (field remote_script ''path'' (VStr ''.''))) (sample_machine []) = Inr VNone"
    by (rule fetch_url [OF u2])
  have r2: "result_of (extract_step (sample_system all_succeed) (VDict remote_script)
         (field remote_script ''path'' (VStr ''.'')) VNone)
         (state_of (fetch (sample_system all_succeed) no_secrets (VDict remote_script)
            (field remote_script ''path'' (VStr ''.''))) (sample_machine [])) =
         Inr (field remote_script ''path'' (VStr ''.''))"
    by (simp add: extract_step_skip [OF e2] result_of_def)
  from execute_target [OF x f r] execute_target [OF x2 f2 r2] x f r x2 f2 r2 p2
  show ?thesis by simp
qed

text \<open>
  The claim as stated fails for a Kaggle task whose \<open>extract\<close> flag is not set: the
  competition \<open>titanic\<close> with \<open>execute: true\<close> has the script runner entered on the
  directory \<open>/data\<close>, not on the implied archive path.
\<close>

theorem execute_target_counterexample:
  "entries ''execute_script''
     (events_of (process_task (sample_system all_succeed) no_secrets (VDict titanic_competition))
        (sample_machine [])) = [[VStr ''/data'']]
   \<and> py_Path (VStr ''/data'') = Inr (PPath ''/'' [''data''])
   \<and> path_join (parse_path ''/data'') (''titanic'' @ ''.zip'') = PPath ''/'' [''data'', ''titanic.zip'']
   \<and> PPath ''/'' [''data''] \<noteq> PPath ''/'' [''data'', ''titanic.zip'']"
proof -
  have f: "result_of (fetch (sample_system all_succeed) no_secrets (VDict titanic_competition) (VStr ''/data''))
          (sample_machine []) = Inr (VPath (PPath ''/'' [''data'', ''titanic.zip'']))"
    by (subst fetch_competition[where n="''titanic''"])
       (simp_all add: titanic_competition_def sample_simps)
  have p: "field titanic_competition ''path'' (VStr ''.'') = VStr ''/data''"
    and x: "field titanic_competition ''execute'' VNone = VBool True"
    and e: "py_get (VDict titanic_competition) ''extract'' VNone \<noteq> Inr (VBool True)"
    by (simp_all add: titanic_competition_def field_def)
  have r: "result_of (extract_step sys (VDict titanic_competition) tp ap) s' = Inr tp" for sys tp ap s'
    by (simp add: extract_step_def seq_run lift_run ret_run titanic_competition_def)
  have "path_join (parse_path ''/data'') (''titanic'' @ ''.zip'') = PPath ''/'' [''data'', ''titanic.zip'']"
    and "parse_path ''/data'' = PPath ''/'' [''data'']"
    by (simp_all add: path_join_def parse_path_def splitroot_def)
  then show ?thesis
    by (simp add: process_task_execute_entries py_get_field p f r execute_step_entries x
        del: py_get.simps)
qed

text \<open>
  C3, as amended. For every \<open>github_file\<close> URL (a string): the download never raises; with
  \<open>/tree/\<close> in the URL it prints the two warnings and makes no call at all; otherwise the
  only network request is for the URL with every \<open>github.com\<close> replaced by
  \<open>raw.githubusercontent.com\<close> and then every \<open>/blob/\<close> replaced by \<open>/\<close> when both texts
  occur anywhere in the URL, and for the URL unchanged when one of them does not occur.
  The request, with the \<open>Authorization\<close> header of a non-empty token, follows the creation
  of the parent directories and is made when the URL passes the check of \<open>Request\<close>, the
  target is a path and the directories could be created. A URL on host \<open>github.com\<close> has
  the text \<open>github.com\<close> in it, so with \<open>/blob/\<close> it is rewritten.
\<close>

theorem github_file_request:
  "result_of (download_github sys (VStr u) target_path ''file'' token) s = Inr ()
   \<and> calls (events_of (download_github sys (VStr u) target_path ''file'' token) s) =
       (if str_contains ''/tree/'' u then []
        else
          let raw_url =
                VStr (if str_contains ''github.com'' u \<and> str_contains ''/blob/'' u
                      then replace_all ''/blob/'' ''/''
                             (replace_all ''github.com'' ''raw.githubusercontent.com'' u)
                      else u)
          in if request_check sys raw_url \<noteq> None then []
             else (case py_Path target_path of
                     Inl e \<Rightarrow> []
                   | Inr p \<Rightarrow>
                       Mkdir_parents (path_parent p) #
                       (if fst (perform sys (world s) (Mkdir_parents (path_parent p))) = None
                        then [Urlopen_to_file raw_url (auth_header token) target_path] else [])))
   \<and> (if str_contains ''/tree/'' u
      then state_of (download_github sys (VStr u) target_path ''file'' token) s = s
         \<and> events_of (download_github sys (VStr u) target_path ''file'' token) s =
             [Enter ''download_github'' [VStr u, target_path, VStr ''file'', opt_val token],
              Print ''[EnvKit] Info: Processing github {} ({} -> {})'' [VStr ''file'', VStr u, target_path],
              Print ''[EnvKit] Warning: URL contains '/tree/', which is a folder'' [],
              Print ''[EnvKit] Warning: 'github_file' is for single file only'' []]
      else True)
   \<and> (url_host u = ''github.com'' \<longrightarrow> str_contains ''github.com'' u)"
proof -
  have "result_of (download_github sys (VStr u) target_path ''file'' token) s = Inr ()
   \<and> calls (events_of (download_github sys (VStr u) target_path ''file'' token) s) =
       (if str_contains ''/tree/'' u then []
        else
          let raw_url =
                VStr (if str_contains ''github.com'' u \<and> str_contains ''/blob/'' u
                      then replace_all ''/blob/'' ''/''
                             (replace_all ''github.com'' ''raw.githubusercontent.com'' u)
                      else u)
          in if request_check sys raw_url \<noteq> None then []
             else (case py_Path target_path of
                     Inl e \<Rightarrow> []
                   | Inr p \<Rightarrow>
                       Mkdir_parents (path_parent p) #
                       (if fst (perform sys (world s) (Mkdir_parents (path_parent p))) = None
                        then [Urlopen_to_file raw_url (auth_header token) target_path] else [])))
   \<and> (if str_contains ''/tree/'' u
      then state_of (download_github sys (VStr u) target_path ''file'' token) s = s
         \<and> events_of (download_github sys (VStr u) target_path ''file'' token) s =
             [Enter ''download_github'' [VStr u, target_path, VStr ''file'', opt_val token],
              Print ''[EnvKit] Info: Processing github {} ({} -> {})'' [VStr ''file'', VStr u, target_path],
              Print ''[EnvKit] Warning: URL contains '/tree/', which is a folder'' [],
              Print ''[EnvKit] Warning: 'github_file' is for single file only'' []]
      else True)"
  proof (cases "str_contains ''/tree/'' u")
    case True
    then show ?thesis by (simp add: download_github_def run_simps)
  next
    case False
    let ?raw = "VStr (if str_contains ''github.com'' u \<and> str_contains ''/blob/'' u
                  then replace_all ''/blob/'' ''/'' (replace_all ''github.com'' ''raw.githubusercontent.com'' u)
                  else u)"
    show ?thesis
    proof (cases "request_check sys ?raw")
      case (Some e)
      with False show ?thesis
        unfolding download_github_def Let_def
        by (simp add: raw_url_of_str run_simps any_exception_def del: if_split)
    next
      case None
      show ?thesis
      proof (cases "py_Path target_path")
        case (Inl e)
        with False None show ?thesis
          unfolding download_github_def Let_def
          by (simp add: raw_url_of_str run_simps any_exception_def)
      next
        case (Inr p)
        show ?thesis
        proof (cases "fst (perform sys (world s) (Mkdir_parents (path_parent p)))")
          case None2: None
          with False None Inr show ?thesis
            unfolding download_github_def Let_def
            by (cases "fst (perform sys (snd (perform sys (world s) (Mkdir_parents (path_parent p))))
                     (Urlopen_to_file ?raw (auth_header token) target_path))")
               (simp_all add: raw_url_of_str run_simps any_exception_def)
        next
          case (Some e)
          with False None Inr show ?thesis
            unfolding download_github_def Let_def
            by (simp add: raw_url_of_str run_simps any_exception_def)
        qed
      qed
    qed
  qed
  with host_github [of u] show ?thesis by blast
qed

text \<open>The web page of a file on \<open>github.com\<close>, fetched with a token from its raw URL.\<close>

theorem github_file_request_witness:
  "url_host ''https://github.com/o/r/blob/main/f.py'' = ''github.com''
   \<and> str_contains ''github.com'' ''https://github.com/o/r/blob/main/f.py''
   \<and> calls (events_of (download_github (sample_system all_succeed)
       (VStr ''https://github.com/o/r/blob/main/f.py'') (VStr ''lib/f.py'') ''file'' (Some ''t0k''))
       (sample_machine [])) =
     [Mkdir_parents (PPath [] [''lib'']),
      Urlopen_to_file (VStr ''https://raw.githubusercontent.com/o/r/main/f.py'') (Some ''token t0k'')
        (VStr ''lib/f.py'')]"
  using github_file_request [of "sample_system all_succeed" "''https://github.com/o/r/blob/main/f.py''"
      "VStr ''lib/f.py''" "Some ''t0k''" "sample_machine []"]
  by (simp add: sample_system_def sample_machine_def all_succeed_def startswith_def auth_header_def
      parse_path_def splitroot_def path_parent_def url_host_def)

text \<open>
  The claim as stated fails: this URL is on host \<open>example.com\<close>, not \<open>github.com\<close>, and has
  no \<open>/tree/\<close>, so the claim has it fetched unchanged; the program requests another URL.
\<close>

theorem github_file_request_counterexample:
  "url_host ''https://example.com/github.com/blob/x'' = ''example.com''
   \<and> \<not> str_contains ''/tree/'' ''https://example.com/github.com/blob/x''
   \<and> calls (events_of (download_github (sample_system all_succeed)
         (VStr ''https://example.com/github.com/blob/x'') (VStr ''x'') ''file'' None)
         (sample_machine [])) =
       [Mkdir_parents (PPath [] []),
        Urlopen_to_file (VStr ''https://example.com/raw.githubusercontent.com/x'') None (VStr ''x'')]
   \<and> ''https://example.com/raw.githubusercontent.com/x'' \<noteq> ''https://example.com/github.com/blob/x''"
  by (simp add: url_host_def download_github_def raw_url_of_def run_simps any_exception_def
      sample_system_def sample_machine_def all_succeed_def startswith_def auth_header_def
      parse_path_def splitroot_def path_parent_def)

text \<open>
  C4. For every \<open>github_repo\<close> task (no \<open>url\<close> and no \<open>github_file\<close> key, the repository
  URL and the path strings) whose path exists when the task is fetched (\<open>Path.exists\<close>
  answers \<open>True\<close>): the download returns without an exception, its events are the entry into
  \<open>download_github\<close>, the progress line and the two warnings and nothing else (no
  \<open>git clone\<close>, no call at all), and the state of the world is the one it started from.
  The run of the whole task is this download followed by the extraction and execution
  steps, run on the path from that unchanged state; no \<open>git clone\<close> is called anywhere in
  it. When neither the \<open>extract\<close> nor the \<open>execute\<close> flag of the task is \<open>True\<close>, the
  download is the whole run of the task, and the world is left as it was.
\<close>

theorem existing_repo_path_skipped:
  assumes "map_of kvs (VStr ''url'') = None"
    and "map_of kvs (VStr ''github_file'') = None"
    and "map_of kvs (VStr ''github_repo'') = Some (VStr u)"
    and "field kvs ''path'' (VStr ''.'') = VStr p"
    and "path_exists sys (world s) (parse_path p) = Inr True"
  shows "fetch sys secrets (VDict kvs) (VStr p) s =
           (Inr VNone, s,
            [Enter ''download_github'' [VStr u, VStr p, VStr ''repo'', opt_val (GITHUB_TOKEN secrets)],
             Print ''[EnvKit] Info: Processing github {} ({} -> {})'' [VStr ''repo'', VStr u, VStr p],
             Print ''[EnvKit] Warning: Target path {} already exists'' [VStr p],
             Print ''[EnvKit] Warning: Skipped clone'' []])
     \<and> (let steps = seq (extract_step sys (VDict kvs) (VStr p) VNone) (execute_step sys (VDict kvs))
        in process_task sys secrets (VDict kvs) s =
           (result_of steps s, state_of steps s,
            [Enter ''download_github'' [VStr u, VStr p, VStr ''repo'', opt_val (GITHUB_TOKEN secrets)],
             Print ''[EnvKit] Info: Processing github {} ({} -> {})'' [VStr ''repo'', VStr u, VStr p],
             Print ''[EnvKit] Warning: Target path {} already exists'' [VStr p],
             Print ''[EnvKit] Warning: Skipped clone'' []] @ events_of steps s))
     \<and> filter git_clone (events_of (process_task sys secrets (VDict kvs)) s) = []
     \<and> (field kvs ''extract'' VNone \<noteq> VBool True \<and> field kvs ''execute'' VNone \<noteq> VBool True \<longrightarrow>
          process_task sys secrets (VDict kvs) s =
           (Inr (), s,
            [Enter ''download_github'' [VStr u, VStr p, VStr ''repo'', opt_val (GITHUB_TOKEN secrets)],
             Print ''[EnvKit] Info: Processing github {} ({} -> {})'' [VStr ''repo'', VStr u, VStr p],
             Print ''[EnvKit] Warning: Target path {} already exists'' [VStr p],
             Print ''[EnvKit] Warning: Skipped clone'' []]))"
proof -
  let ?skip = "[Enter ''download_github'' [VStr u, VStr p, VStr ''repo'', opt_val (GITHUB_TOKEN secrets)],
             Print ''[EnvKit] Info: Processing github {} ({} -> {})'' [VStr ''repo'', VStr u, VStr p],
             Print ''[EnvKit] Warning: Target path {} already exists'' [VStr p],
             Print ''[EnvKit] Warning: Skipped clone'' []]"
  let ?steps = "seq (extract_step sys (VDict kvs) (VStr p) VNone) (execute_step sys (VDict kvs))"
  obtain fu where fu: "clone_url (VStr u) (GITHUB_TOKEN secrets) = Inr fu"
    using clone_url_str by blast
  have f: "fetch sys secrets (VDict kvs) (VStr p) s = (Inr VNone, s, ?skip)"
    unfolding prog_eq_iff using assms(1,2,3,5) fu
    by (simp add: fetch_def py_in_dict download_github_def run_simps del: py_in.simps)
  then have fr: "result_of (fetch sys secrets (VDict kvs) (VStr p)) s = Inr VNone"
    and fs: "state_of (fetch sys secrets (VDict kvs) (VStr p)) s = s"
    and fe: "events_of (fetch sys secrets (VDict kvs) (VStr p)) s = ?skip"
    by (simp_all add: prog_eq_iff)
  have t: "process_task sys secrets (VDict kvs) s =
             (result_of ?steps s, state_of ?steps s, ?skip @ events_of ?steps s)"
    unfolding prog_eq_iff
    by (simp add: process_task_def py_get_field assms(4) seq_run [of "lift _"]
        seq_run [of "fetch _ _ _ _"] lift_run fr fs fe del: py_get.simps)
  have "clone_free ?steps"
    by (intro clone_free_seq clone_free_extract_step clone_free_execute_step)
  then have c: "filter git_clone (events_of (process_task sys secrets (VDict kvs)) s) = []"
    using t by (simp add: prog_eq_iff clone_free_events)
  have o: "process_task sys secrets (VDict kvs) s = (Inr (), s, ?skip)"
    if off: "field kvs ''extract'' VNone \<noteq> VBool True" "field kvs ''execute'' VNone \<noteq> VBool True"
    using f extract_step_skip[OF off(1), of sys] execute_step_skip[OF off(2), of sys]
    unfolding prog_eq_iff
    by (simp add: process_task_def py_get_field assms(4) seq_run lift_run del: py_get.simps)
  from f t c o show ?thesis by (simp add: Let_def)
qed

text \<open>The task \<open>{github_repo: https://github.com/o/r, path: /work/r}\<close> where \<open>/work/r\<close> exists.\<close>

theorem existing_repo_path_skipped_witness:
  "map_of [(VStr ''github_repo'', VStr ''https://github.com/o/r''), (VStr ''path'', VStr ''/work/r'')]
      (VStr ''github_repo'') = Some (VStr ''https://github.com/o/r'')
   \<and> path_exists (sample_system all_succeed) (world (sample_machine [parse_path ''/work/r'']))
        (parse_path ''/work/r'') = Inr True
   \<and> filter git_clone (events_of (process_task (sample_system all_succeed) no_secrets
        (VDict [(VStr ''github_repo'', VStr ''https://github.com/o/r''), (VStr ''path'', VStr ''/work/r'')]))
        (sample_machine [parse_path ''/work/r''])) = []
   \<and> process_task (sample_system all_succeed) no_secrets
        (VDict [(VStr ''github_repo'', VStr ''https://github.com/o/r''), (VStr ''path'', VStr ''/work/r'')])
        (sample_machine [parse_path ''/work/r'']) =
      (Inr (), sample_machine [parse_path ''/work/r''],
       [Enter ''download_github'' [VStr ''https://github.com/o/r'', VStr ''/work/r'', VStr ''repo'', VNone],
        Print ''[EnvKit] Info: Processing github {} ({} -> {})''
          [VStr ''repo'', VStr ''https://github.com/o/r'', VStr ''/work/r''],
        Print ''[EnvKit] Warning: Target path {} already exists'' [VStr ''/work/r''],
        Print ''[EnvKit] Warning: Skipped clone'' []])"
proof -
  let ?kvs = "[(VStr ''github_repo'', VStr ''https://github.com/o/r''), (VStr ''path'', VStr ''/work/r'')]"
  let ?s = "sample_machine [parse_path ''/work/r'']"
  have h: "map_of ?kvs (VStr ''url'') = None" "map_of ?kvs (VStr ''github_file'') = None"
    "map_of ?kvs (VStr ''github_repo'') = Some (VStr ''https://github.com/o/r'')"
    "field ?kvs ''path'' (VStr ''.'') = VStr ''/work/r''"
    "path_exists (sample_system all_succeed) (world ?s) (parse_path ''/work/r'') = Inr True"
    and off: "field ?kvs ''extract'' VNone \<noteq> VBool True" "field ?kvs ''execute'' VNone \<noteq> VBool True"
    by (simp_all add: field_def sample_system_def sample_machine_def)
  note t = existing_repo_path_skipped [OF h, of no_secrets, unfolded Let_def]
  have n: "opt_val (GITHUB_TOKEN no_secrets) = VNone"
    by (simp add: no_secrets_def)
  from t off h(3,5) show ?thesis unfolding n by blast
qed

text \<open>
  The existing path is not always left unmodified: with \<open>extract: true\<close> and
  \<open>remove_compression: true\<close> the task whose path \<open>/work/r.zip\<close> exists skips the clone, then
  extracts the existing file and removes it.
\<close>

theorem existing_repo_path_skipped_counterexample:
  "map_of zipped_repo (VStr ''url'') = None \<and> map_of zipped_repo (VStr ''github_file'') = None
   \<and> map_of zipped_repo (VStr ''github_repo'') = Some (VStr ''https://github.com/o/r'')
   \<and> field zipped_repo ''path'' (VStr ''.'') = VStr ''/work/r.zip''
   \<and> path_exists disk_system (world (sample_machine [PPath ''/'' [''work'', ''r.zip'']]))
        (parse_path ''/work/r.zip'') = Inr True
   \<and> result_of (process_task disk_system no_secrets (VDict zipped_repo))
        (sample_machine [PPath ''/'' [''work'', ''r.zip'']]) = Inr ()
   \<and> calls (events_of (process_task disk_system no_secrets (VDict zipped_repo))
        (sample_machine [PPath ''/'' [''work'', ''r.zip'']])) =
      [Zip_extractall (PPath ''/'' [''work'', ''r.zip'']) (VPath (PPath ''/'' [''work''])),
       Os_remove (PPath ''/'' [''work'', ''r.zip''])]
   \<and> path_exists disk_system
        (world (state_of (process_task disk_system no_secrets (VDict zipped_repo))
           (sample_machine [PPath ''/'' [''work'', ''r.zip'']])))
        (parse_path ''/work/r.zip'') = Inr False"
proof -
  let ?s = "sample_machine [PPath ''/'' [''work'', ''r.zip'']]"
  let ?z = "PPath ''/'' [''work'', ''r.zip'']"
  have pp: "parse_path ''/work/r.zip'' = ?z"
    by (simp add: parse_path_def splitroot_def)
  have k: "map_of zipped_repo (VStr ''url'') = None" "map_of zipped_repo (VStr ''github_file'') = None"
    and g: "map_of zipped_repo (VStr ''github_repo'') = Some (VStr ''https://github.com/o/r'')"
    and p: "field zipped_repo ''path'' (VStr ''.'') = VStr ''/work/r.zip''"
    and e: "field zipped_repo ''extract'' VNone = VBool True"
    and x: "field zipped_repo ''execute'' VNone \<noteq> VBool True"
    and et: "field zipped_repo ''extract_to'' VNone = VNone"
    and rm: "field zipped_repo ''remove_compression'' (VBool False) = VBool True"
    and nk: "map_of zipped_repo (VStr ''kaggle_competition'') = None"
       "map_of zipped_repo (VStr ''kaggle_dataset'') = None"
    by (simp_all add: zipped_repo_def field_def)
  have ex: "path_exists disk_system (world ?s) (parse_path ''/work/r.zip'') = Inr True"
    by (simp add: pp disk_system_def sample_system_def sample_machine_def)
  have fr: "result_of (fetch disk_system no_secrets (VDict zipped_repo) (VStr ''/work/r.zip'')) ?s = Inr VNone"
    and fs: "state_of (fetch disk_system no_secrets (VDict zipped_repo) (VStr ''/work/r.zip'')) ?s = ?s"
    and fc: "calls (events_of (fetch disk_system no_secrets (VDict zipped_repo) (VStr ''/work/r.zip'')) ?s) = []"
    using ex
    by (simp_all add: fetch_def py_in_dict k g download_github_def run_simps clone_url_def
        no_secrets_def del: py_in.simps)
  have xr: "result_of (extract_file disk_system (VStr ''/work/r.zip'') VNone (VBool True)) ?s = Inr ()"
    and xs: "state_of (extract_file disk_system (VStr ''/work/r.zip'') VNone (VBool True)) ?s = sample_machine []"
    and xc: "calls (events_of (extract_file disk_system (VStr ''/work/r.zip'') VNone (VBool True)) ?s) =
       [Zip_extractall ?z (VPath (PPath ''/'' [''work''])), Os_remove ?z]"
    by (simp_all add: extract_file_def pp run_simps Let_def disk_system_def sample_system_def
        sample_machine_def path_suffix_def path_name_def path_parent_def any_exception_def)
  have sr: "result_of (extract_step disk_system (VDict zipped_repo) (VStr ''/work/r.zip'') VNone) ?s =
        Inr (VStr ''/work/r.zip'')"
    and ss: "state_of (extract_step disk_system (VDict zipped_repo) (VStr ''/work/r.zip'') VNone) ?s =
        sample_machine []"
    and sc: "calls (events_of (extract_step disk_system (VDict zipped_repo) (VStr ''/work/r.zip'') VNone) ?s) =
       [Zip_extractall ?z (VPath (PPath ''/'' [''work''])), Os_remove ?z]"
    using e et rm nk
    by (simp_all add: extract_step_def py_get_field py_in_dict seq_run lift_run ret_run Let_def
        xr xs xc del: py_in.simps py_get.simps)
  note q = execute_step_skip [OF x, of disk_system "VStr ''/work/r.zip''" "sample_machine []"]
  have r: "result_of (process_task disk_system no_secrets (VDict zipped_repo)) ?s = Inr ()"
    and st: "state_of (process_task disk_system no_secrets (VDict zipped_repo)) ?s = sample_machine []"
    and c: "calls (events_of (process_task disk_system no_secrets (VDict zipped_repo)) ?s) =
       [Zip_extractall ?z (VPath (PPath ''/'' [''work''])), Os_remove ?z]"
    using q
    by (simp_all add: process_task_def py_get_field p seq_run lift_run fr fs fc sr ss sc prog_eq_iff
        del: py_get.simps)
  have gone: "path_exists disk_system (world (sample_machine [])) (parse_path ''/work/r.zip'') = Inr False"
    by (simp add: disk_system_def sample_system_def sample_machine_def)
  from k g p ex r c gone st show ?thesis by simp
qed



text \<open>
  C6. For every configuration (a mapping) whose \<open>download\<close> key is absent or holds the empty
  list: \<open>process_downloads\<close> returns without an exception, leaves the state as it was, and
  its only events are its own entry and the line "No download tasks found": no download,
  no extraction, no execution, no call that leaves the program.
\<close>

theorem no_download_is_noop:
  assumes "map_of kvs (VStr ''download'') = None \<or> map_of kvs (VStr ''download'') = Some (VList [])"
  shows "process_downloads sys (VDict kvs) secrets s =
           (Inr (), s, [Enter ''process_downloads'' [VDict kvs],
                        Print ''[EnvKit] Info: No download tasks found'' []])"
  using assms by (auto simp add: prog_eq_iff process_downloads_def run_simps)

theorem no_download_is_noop_witness:
  "(map_of [(VStr ''platform'', VStr ''local''), (VStr ''download'', VList [])] (VStr ''download'') = None
      \<or> map_of [(VStr ''platform'', VStr ''local''), (VStr ''download'', VList [])] (VStr ''download'')
          = Some (VList []))
   \<and> process_downloads (sample_system all_succeed)
        (VDict [(VStr ''platform'', VStr ''local''), (VStr ''download'', VList [])]) no_secrets
        (sample_machine []) =
      (Inr (), sample_machine [],
       [Enter ''process_downloads''
          [VDict [(VStr ''platform'', VStr ''local''), (VStr ''download'', VList [])]],
        Print ''[EnvKit] Info: No download tasks found'' []])"
  using no_download_is_noop [of
      "[(VStr ''platform'', VStr ''local''), (VStr ''download'', VList [])]"
      "sample_system all_succeed" no_secrets "sample_machine []"]
  by simp

text \<open>
  C7. For every configuration (a mapping) whose \<open>platform\<close> value is not one of \<open>auto\<close>,
  \<open>colab\<close>, \<open>kaggle\<close>, \<open>local\<close>: the run prints the configuration file line and the error
  "Invalid platform", and the process exits with code 1. These two lines are all its
  events: no secret is looked up, no package installed, no download task run, and the
  state (world and environment) is the one it started from.
\<close>

theorem invalid_platform_exits:
  assumes "load_config sys (world s) yaml_path = Inr (VDict kvs)"
    and "map_of kvs (VStr ''platform'') = Some v"
    and "v \<notin> set platforms"
  shows "main sys yaml_path s =
           (1, s, [Print ''[EnvKit] Info: Config file is {}'' [VStr yaml_path],
                   Print ''[EnvKit] Error: Invalid platform ({})'' [v]])"
proof -
  have "setup_envkit sys yaml_path s =
          (Inr RNone, s, [Print ''[EnvKit] Info: Config file is {}'' [VStr yaml_path],
                   Print ''[EnvKit] Error: Invalid platform ({})'' [v]])"
    unfolding setup_envkit_loaded[OF assms(1)] prog_eq_iff using assms(2,3)
    by (simp add: configure_def run_simps)
  then show ?thesis by (simp add: main_def)
qed

theorem invalid_platform_exits_witness:
  "load_config (with_config (VDict [(VStr ''platform'', VStr ''bogus'')]) (sample_system all_succeed))
      (world (sample_machine [])) ''envkit.yaml'' = Inr (VDict [(VStr ''platform'', VStr ''bogus'')])
   \<and> VStr ''bogus'' \<notin> set platforms
   \<and> main (with_config (VDict [(VStr ''platform'', VStr ''bogus'')]) (sample_system all_succeed))
        ''envkit.yaml'' (sample_machine []) =
      (1, sample_machine [],
       [Print ''[EnvKit] Info: Config file is {}'' [VStr ''envkit.yaml''],
        Print ''[EnvKit] Error: Invalid platform ({})'' [VStr ''bogus'']])"
  using invalid_platform_exits [of
      "with_config (VDict [(VStr ''platform'', VStr ''bogus'')]) (sample_system all_succeed)"
      "sample_machine []" "''envkit.yaml''" "[(VStr ''platform'', VStr ''bogus'')]" "VStr ''bogus''"]
  by (simp add: with_config_def platforms_def)

text \<open>
  C8. The extraction step and the execution step of a task run only when the flag is the
  boolean \<open>True\<close> itself (\<open>task.get('extract') is True\<close>): for every task whose \<open>extract\<close>
  value is anything else (absent, \<open>1\<close>, a non-empty string, a non-empty mapping, ...) the
  run of the task never enters \<open>extract_file\<close>, and for every task whose \<open>execute\<close> value
  is anything else it never enters \<open>execute_script\<close>.
\<close>

theorem flags_by_identity:
  "(py_get task ''extract'' VNone \<noteq> Inr (VBool True) \<longrightarrow>
      entries ''extract_file'' (events_of (process_task sys secrets task) s) = [])
   \<and> (py_get task ''execute'' VNone \<noteq> Inr (VBool True) \<longrightarrow>
      entries ''execute_script'' (events_of (process_task sys secrets task) s) = [])"
  by (simp add: process_task_extract_entries process_task_execute_entries extract_step_off
      execute_step_off split: sum.splits)

text \<open>
  The task \<open>{url: u, path: /tmp/f.zip, extract: 1, execute: yes}\<close>, with both flags truthy
  and neither \<open>True\<close>: the file is downloaded, nothing is extracted or executed.
\<close>

theorem flags_by_identity_witness:
  "truthy (VInt 1) \<and> truthy (VStr ''yes'')
   \<and> py_get (VDict [(VStr ''url'', VStr ''u''), (VStr ''path'', VStr ''/tmp/f.zip''),
                (VStr ''extract'', VInt 1), (VStr ''execute'', VStr ''yes'')]) ''extract'' VNone
       \<noteq> Inr (VBool True)
   \<and> py_get (VDict [(VStr ''url'', VStr ''u''), (VStr ''path'', VStr ''/tmp/f.zip''),
                (VStr ''extract'', VInt 1), (VStr ''execute'', VStr ''yes'')]) ''execute'' VNone
       \<noteq> Inr (VBool True)
   \<and> entries ''extract_file'' (events_of (process_task (sample_system all_succeed) no_secrets
        (VDict [(VStr ''url'', VStr ''u''), (VStr ''path'', VStr ''/tmp/f.zip''),
                (VStr ''extract'', VInt 1), (VStr ''execute'', VStr ''yes'')]))
        (sample_machine [parse_path ''/tmp/f.zip''])) = []
   \<and> entries ''execute_script'' (events_of (process_task (sample_system all_succeed) no_secrets
        (VDict [(VStr ''url'', VStr ''u''), (VStr ''path'', VStr ''/tmp/f.zip''),
                (VStr ''extract'', VInt 1), (VStr ''execute'', VStr ''yes'')]))
        (sample_machine [parse_path ''/tmp/f.zip''])) = []"
  using flags_by_identity [of
      "VDict [(VStr ''url'', VStr ''u''), (VStr ''path'', VStr ''/tmp/f.zip''),
              (VStr ''extract'', VInt 1), (VStr ''execute'', VStr ''yes'')]"
      "sample_system all_succeed" no_secrets "sample_machine [parse_path ''/tmp/f.zip'']"]
  by simp

text \<open>
  C9. For every task (a mapping) with none of the five source keys: the download step
  does nothing (no event, state unchanged, result \<open>None\<close>). If the \<open>extract\<close> flag is
  \<open>True\<close>, \<open>extract_file\<close> is still entered, exactly once, on the task's \<open>path\<close> (default
  \<open>.\<close>). If the \<open>execute\<close> flag is \<open>True\<close>, \<open>execute_script\<close> is entered exactly once on that
  path when no extraction comes first or the extraction returns normally, and is not
  entered at all when the extraction raises. On a path that is a string or a path,
  \<open>extract_file\<close> raises exactly what \<open>Path.exists\<close> or \<open>Path.is_file\<close> raise.
\<close>

theorem sourceless_task:
  assumes "map_of kvs (VStr ''url'') = None" "map_of kvs (VStr ''github_file'') = None"
    "map_of kvs (VStr ''github_repo'') = None" "map_of kvs (VStr ''kaggle_competition'') = None"
    "map_of kvs (VStr ''kaggle_dataset'') = None"
  shows "fetch sys secrets (VDict kvs) (field kvs ''path'' (VStr ''.'')) s = (Inr VNone, s, [])
    \<and> (field kvs ''extract'' VNone = VBool True \<longrightarrow>
         entries ''extract_file'' (events_of (process_task sys secrets (VDict kvs)) s) =
           [[field kvs ''path'' (VStr ''.''), field kvs ''extract_to'' VNone,
             field kvs ''remove_compression'' (VBool False)]])
    \<and> (field kvs ''execute'' VNone = VBool True \<longrightarrow>
         entries ''execute_script'' (events_of (process_task sys secrets (VDict kvs)) s) =
           (if field kvs ''extract'' VNone \<noteq> VBool True
               \<or> result_of (extract_file sys (field kvs ''path'' (VStr ''.''))
                     (field kvs ''extract_to'' VNone)
                     (field kvs ''remove_compression'' (VBool False))) s = Inr ()
            then [[field kvs ''path'' (VStr ''.'')]] else []))
    \<and> (\<forall>q. py_Path (field kvs ''path'' (VStr ''.'')) = Inr q \<longrightarrow>
         result_of (extract_file sys (field kvs ''path'' (VStr ''.''))
              (field kvs ''extract_to'' VNone) (field kvs ''remove_compression'' (VBool False))) s =
           (case path_exists sys (world s) q of
              Inl e \<Rightarrow> Inl e
            | Inr found \<Rightarrow>
                if \<not> found then Inr ()
                else (case path_is_file sys (world s) q of Inl e \<Rightarrow> Inl e | Inr isf \<Rightarrow> Inr ())))"
proof -
  let ?tp = "field kvs ''path'' (VStr ''.'')"
  let ?x = "result_of (extract_file sys ?tp (field kvs ''extract_to'' VNone)
                     (field kvs ''remove_compression'' (VBool False))) s"
  note f = fetch_no_source[OF assms]
  have fr: "result_of (fetch sys secrets (VDict kvs) ?tp) s = Inr VNone"
    and fs: "state_of (fetch sys secrets (VDict kvs) ?tp) s = s"
    using f[of sys secrets ?tp s] by (simp_all add: prog_eq_iff)
  have 1: "field kvs ''extract'' VNone = VBool True \<Longrightarrow>
         entries ''extract_file'' (events_of (process_task sys secrets (VDict kvs)) s) =
           [[?tp, field kvs ''extract_to'' VNone, field kvs ''remove_compression'' (VBool False)]]"
    using assms(4,5)
    by (simp add: process_task_extract_entries py_get_field fr fs extract_step_entries
        del: py_get.simps)
  have r: "result_of (extract_step sys (VDict kvs) ?tp VNone) s =
             (if field kvs ''extract'' VNone \<noteq> VBool True then Inr ?tp
              else (case ?x of Inl e \<Rightarrow> Inl e | Inr u \<Rightarrow> Inr ?tp))"
  proof (cases "field kvs ''extract'' VNone = VBool True")
    case True
    with assms(4,5) show ?thesis by (simp add: extract_step_run Let_def)
  next
    case False
    then show ?thesis
      by (simp add: extract_step_def py_get_field seq_run lift_run ret_run del: py_get.simps)
  qed
  have 2: "field kvs ''execute'' VNone = VBool True \<Longrightarrow>
         entries ''execute_script'' (events_of (process_task sys secrets (VDict kvs)) s) =
           (if field kvs ''extract'' VNone \<noteq> VBool True \<or> ?x = Inr () then [[?tp]] else [])"
    by (cases ?x)
       (auto simp add: process_task_execute_entries py_get_field fr fs r execute_step_entries
         simp del: py_get.simps)
  have 3: "py_Path ?tp = Inr q \<Longrightarrow> ?x =
           (case path_exists sys (world s) q of
              Inl e \<Rightarrow> Inl e
            | Inr found \<Rightarrow>
                if \<not> found then Inr ()
                else (case path_is_file sys (world s) q of Inl e \<Rightarrow> Inl e | Inr isf \<Rightarrow> Inr ()))" for q
    by (rule extract_file_result)
  from f 1 2 3 show ?thesis by blast
qed

text \<open>The task \<open>{path: run.py, extract: true, execute: true}\<close>.\<close>

theorem sourceless_task_witness:
  "map_of local_script (VStr ''url'') = None \<and> map_of local_script (VStr ''github_file'') = None
   \<and> map_of local_script (VStr ''github_repo'') = None
   \<and> map_of local_script (VStr ''kaggle_competition'') = None
   \<and> map_of local_script (VStr ''kaggle_dataset'') = None
   \<and> field local_script ''extract'' VNone = VBool True
   \<and> field local_script ''execute'' VNone = VBool True
   \<and> result_of (extract_file (sample_system all_succeed) (VStr ''run.py'') VNone (VBool False))
        (sample_machine [parse_path ''run.py'']) = Inr ()
   \<and> fetch (sample_system all_succeed) no_secrets (VDict local_script) (VStr ''run.py'')
        (sample_machine [parse_path ''run.py'']) = (Inr VNone, sample_machine [parse_path ''run.py''], [])
   \<and> entries ''extract_file''
        (events_of (process_task (sample_system all_succeed) no_secrets (VDict local_script))
           (sample_machine [parse_path ''run.py''])) = [[VStr ''run.py'', VNone, VBool False]]
   \<and> entries ''execute_script''
        (events_of (process_task (sample_system all_succeed) no_secrets (VDict local_script))
           (sample_machine [parse_path ''run.py''])) = [[VStr ''run.py'']]"
proof -
  have x: "result_of (extract_file (sample_system all_succeed) (VStr ''run.py'') VNone (VBool False))
        (sample_machine [parse_path ''run.py'']) = Inr ()"
    by (rule sample_extract_file) simp
  from x sourceless_task [of local_script "sample_system all_succeed" no_secrets
      "sample_machine [parse_path ''run.py'']"]
  show ?thesis by (simp add: local_script_def field_def)
qed

text \<open>
  The runner is not always invoked: with a path of 300 characters, \<open>extract: true\<close> and
  \<open>execute: true\<close>, \<open>Path.exists\<close> raises \<open>OSError\<close> in \<open>extract_file\<close>, the exception leaves the
  task and \<open>execute_script\<close> is never entered.
\<close>

theorem sourceless_task_counterexample:
  "map_of long_script (VStr ''url'') = None \<and> map_of long_script (VStr ''github_file'') = None
   \<and> map_of long_script (VStr ''github_repo'') = None
   \<and> map_of long_script (VStr ''kaggle_competition'') = None
   \<and> map_of long_script (VStr ''kaggle_dataset'') = None
   \<and> field long_script ''execute'' VNone = VBool True
   \<and> result_of (process_task strict_system no_secrets (VDict long_script)) (sample_machine []) = Inl OSError
   \<and> entries ''execute_script''
        (events_of (process_task strict_system no_secrets (VDict long_script)) (sample_machine [])) = []"
proof -
  let ?name = "replicate 300 CHR ''a''"
  have pp: "parse_path ?name = PPath [] [?name]"
  proof (rule parse_path_plain)
    show "CHR ''/'' \<notin> set ?name" by simp
    show "?name \<noteq> []" by simp
    have "length ?name \<noteq> length ''.''" by simp
    then show "?name \<noteq> ''.''" by metis
  qed
  have k: "map_of long_script (VStr ''url'') = None" "map_of long_script (VStr ''github_file'') = None"
    "map_of long_script (VStr ''github_repo'') = None"
    "map_of long_script (VStr ''kaggle_competition'') = None"
    "map_of long_script (VStr ''kaggle_dataset'') = None"
    and p: "field long_script ''path'' (VStr ''.'') = VStr ?name"
    and e: "field long_script ''extract'' VNone = VBool True"
    and x: "field long_script ''execute'' VNone = VBool True"
    and et: "field long_script ''extract_to'' VNone = VNone"
    and rm: "field long_script ''remove_compression'' (VBool False) = VBool False"
    by (simp_all add: long_script_def field_def)
  have long: "path_exists strict_system w (PPath [] [?name]) = Inl OSError" for w
    by (simp add: strict_system_def name_too_long_def)
  have xf: "result_of (extract_file strict_system (VStr ?name) VNone (VBool False)) s = Inl OSError" for s
    by (simp add: extract_file_result [where path = "PPath [] [?name]"] pp long)
  note f = fetch_no_source [OF k, of strict_system no_secrets "VStr ?name" "sample_machine []"]
  have fr: "result_of (fetch strict_system no_secrets (VDict long_script) (VStr ?name)) (sample_machine []) = Inr VNone"
    and fs: "state_of (fetch strict_system no_secrets (VDict long_script) (VStr ?name)) (sample_machine []) = sample_machine []"
    using f by (simp_all add: prog_eq_iff)
  have xs: "result_of (extract_step strict_system (VDict long_script) (VStr ?name) VNone) (sample_machine []) = Inl OSError"
    using k(4,5) by (simp add: extract_step_run [OF e] et rm xf Let_def)
  have r: "result_of (process_task strict_system no_secrets (VDict long_script)) (sample_machine []) = Inl OSError"
    by (simp add: process_task_def seq_run lift_run py_get_field p fr fs xs del: py_get.simps)
  have n: "entries ''execute_script''
        (events_of (process_task strict_system no_secrets (VDict long_script)) (sample_machine [])) = []"
    by (simp add: process_task_execute_entries py_get_field p fr fs xs del: py_get.simps)
  from k x r n show ?thesis by simp
qed

text \<open>
  C10, as amended. For every run of \<open>setup\<close> that loads its configuration, has a valid
  platform and gets its secrets: the assignments of \<open>setup\<close> write \<open>KAGGLE_USERNAME\<close> and
  \<open>KAGGLE_KEY\<close>, in this order, when both secrets are present and non-empty, and write
  nothing when either is missing or empty; the package installation and the download
  tasks write no variable. On the platforms \<open>colab\<close> and \<open>kaggle\<close> loading the secrets
  leaves the environment alone, so that the environment after \<open>setup\<close> is the one before
  it, with the two variables set if and only if both secrets are there. On the local
  platform loading the secrets is \<open>load_dotenv()\<close>, which writes the variables of the
  \<open>.env\<close> file: the environment after \<open>setup\<close> is the one \<open>load_dotenv\<close> left, with the two
  variables set under the same condition.
\<close>

theorem credentials_in_environment:
  assumes "load_config sys (world s) yaml_path = Inr config"
    and "py_get config ''platform'' (VStr ''auto'') = Inr p0" and "p0 \<in> set platforms"
    and "result_of (if p0 = VStr ''auto'' then detect_platform sys else ret p0) s = Inr platform"
    and "result_of (get_secrets sys platform) s = Inr sec"
  shows "setenvs (events_of (setup_envkit sys yaml_path) s) =
           (if opt_truthy (KAGGLE_USERNAME sec) \<and> opt_truthy (KAGGLE_KEY sec)
            then [(''KAGGLE_USERNAME'', the (KAGGLE_USERNAME sec)),
                  (''KAGGLE_KEY'', the (KAGGLE_KEY sec))]
            else [])
    \<and> environ (state_of (setup_envkit sys yaml_path) s) =
           (let env = (if platform = VStr ''colab'' \<or> platform = VStr ''kaggle'' then environ s
                       else snd (load_dotenv sys (world s) (environ s)))
            in if opt_truthy (KAGGLE_USERNAME sec) \<and> opt_truthy (KAGGLE_KEY sec)
               then env(''KAGGLE_USERNAME'' \<mapsto> the (KAGGLE_USERNAME sec),
                        ''KAGGLE_KEY'' \<mapsto> the (KAGGLE_KEY sec))
               else env)"
  using configure_environment [OF assms(2-5)]
  by (simp add: setup_envkit_run [OF assms(1)] seq_say_run)

text \<open>
  On Colab, with the user name in the secret store and no key: nothing is written, the
  environment stays empty.
\<close>

theorem credentials_in_environment_witness:
  "load_config (with_config (VDict [(VStr ''platform'', VStr ''colab'')]) (colab_system [(''KAGGLE_USERNAME'', ''alice'')]))
      (world (sample_machine [])) ''envkit.yaml'' = Inr (VDict [(VStr ''platform'', VStr ''colab'')])
   \<and> VStr ''colab'' \<in> set platforms
   \<and> result_of (get_secrets (with_config (VDict [(VStr ''platform'', VStr ''colab'')])
         (colab_system [(''KAGGLE_USERNAME'', ''alice'')])) (VStr ''colab'')) (sample_machine []) =
       Inr \<lparr>GITHUB_TOKEN = None, KAGGLE_USERNAME = Some ''alice'', KAGGLE_KEY = None\<rparr>
   \<and> setenvs (events_of (setup_envkit (with_config (VDict [(VStr ''platform'', VStr ''colab'')])
         (colab_system [(''KAGGLE_USERNAME'', ''alice'')])) ''envkit.yaml'') (sample_machine [])) = []
   \<and> environ (state_of (setup_envkit (with_config (VDict [(VStr ''platform'', VStr ''colab'')])
         (colab_system [(''KAGGLE_USERNAME'', ''alice'')])) ''envkit.yaml'') (sample_machine [])) =
       environ (sample_machine [])"
proof -
  let ?config = "VDict [(VStr ''platform'', VStr ''colab'')]"
  let ?sys = "with_config ?config (colab_system [(''KAGGLE_USERNAME'', ''alice'')])"
  let ?sec = "\<lparr>GITHUB_TOKEN = None, KAGGLE_USERNAME = Some ''alice'', KAGGLE_KEY = None\<rparr>"
  have 1: "load_config ?sys (world (sample_machine [])) ''envkit.yaml'' = Inr ?config"
    by (simp add: with_config_def)
  have 2: "py_get ?config ''platform'' (VStr ''auto'') = Inr (VStr ''colab'')" by simp
  have 3: "VStr ''colab'' \<in> set platforms" by (simp add: platforms_def)
  have 4: "result_of (if VStr ''colab'' = VStr ''auto'' then detect_platform ?sys else ret (VStr ''colab''))
             (sample_machine []) = Inr (VStr ''colab'')"
    by (simp add: ret_run)
  have b: "result_of (colab_branch ?sys) (sample_machine []) = Inr ?sec"
    and bs: "state_of (colab_branch ?sys) (sample_machine []) = sample_machine []"
    by (simp_all add: colab_branch_def result_of_def state_of_def ret_def with_config_def
        colab_system_def sample_system_def store_secrets_def lookup_secret_def)
  have 5: "result_of (get_secrets ?sys (VStr ''colab'')) (sample_machine []) = Inr ?sec"
    by (simp add: get_secrets_def run_simps warn_missing_def b bs)
  from credentials_in_environment [OF 1 2 3 4 5] 1 3 5 show ?thesis by simp
qed

text \<open>
  The claim as stated fails on the local platform. With a \<open>.env\<close> file that holds
  \<open>KAGGLE_USERNAME\<close> and \<open>FOO\<close> and no \<open>KAGGLE_KEY\<close>, and an empty environment before the
  run: the key is missing, yet after \<open>setup\<close> the environment holds \<open>KAGGLE_USERNAME\<close>, and
  the variable \<open>FOO\<close> as well.
\<close>

theorem credentials_in_environment_counterexample:
  "environ (sample_machine []) ''KAGGLE_USERNAME'' = None
   \<and> environ (sample_machine []) ''FOO'' = None
   \<and> environ (state_of (setup_envkit (local_system [(''KAGGLE_USERNAME'', ''alice''), (''FOO'', ''bar'')])
        ''envkit.yaml'') (sample_machine [])) ''KAGGLE_KEY'' = None
   \<and> environ (state_of (setup_envkit (local_system [(''KAGGLE_USERNAME'', ''alice''), (''FOO'', ''bar'')])
        ''envkit.yaml'') (sample_machine [])) ''KAGGLE_USERNAME'' = Some ''alice''
   \<and> environ (state_of (setup_envkit (local_system [(''KAGGLE_USERNAME'', ''alice''), (''FOO'', ''bar'')])
        ''envkit.yaml'') (sample_machine [])) ''FOO'' = Some ''bar''"
proof -
  let ?config = "VDict [(VStr ''platform'', VStr ''local'')]"
  let ?sys = "local_system [(''KAGGLE_USERNAME'', ''alice''), (''FOO'', ''bar'')]"
  let ?sec = "\<lparr>GITHUB_TOKEN = None, KAGGLE_USERNAME = Some ''alice'', KAGGLE_KEY = None\<rparr>"
  have 1: "load_config ?sys (world (sample_machine [])) ''envkit.yaml'' = Inr ?config"
    by (simp add: local_system_def with_config_def)
  have 2: "py_get ?config ''platform'' (VStr ''auto'') = Inr (VStr ''local'')" by simp
  have 3: "VStr ''local'' \<in> set platforms" by (simp add: platforms_def)
  have 4: "result_of (if VStr ''local'' = VStr ''auto'' then detect_platform ?sys else ret (VStr ''local''))
             (sample_machine []) = Inr (VStr ''local'')"
    by (simp add: ret_run)
  have b: "result_of (local_branch ?sys) (sample_machine []) = Inr ?sec"
    by (simp add: local_branch_def result_of_def ret_def local_system_def with_config_def
        sample_system_def sample_machine_def dotenv_file_def)
  have 5: "result_of (get_secrets ?sys (VStr ''local'')) (sample_machine []) = Inr ?sec"
    by (simp add: get_secrets_def run_simps warn_missing_def b)
  have "environ (state_of (setup_envkit ?sys ''envkit.yaml'') (sample_machine [])) =
          snd (load_dotenv ?sys (world (sample_machine [])) (environ (sample_machine [])))"
    using configure_environment(2) [OF 2 3 4 5]
    by (simp add: setup_envkit_run [OF 1] seq_say_run)
  then show ?thesis
    by (simp add: local_system_def with_config_def sample_system_def sample_machine_def
        dotenv_file_def)
qed

end
